theory Spec2Isabelle
  imports Complex_Main "HOL-Library.AList"
begin

section \<open>JavaScript values\<close>

text \<open>
  Request bodies, database rows and response bodies are JSON values. A JSON object is an
  association list; reading a key that is absent gives \<open>undefined\<close>, as a property read
  does in JavaScript. Numbers are the parsed values; the handlers only test them for
  being zero and for equality, so they are modelled as reals (JSON has no NaN).
\<close>

datatype jsval =
    JUndefined
  | JNull
  | JBool bool
  | JNum real
  | JStr string
  | JArr "jsval list"
  | JObj "(string \<times> jsval) list"

type_synonym obj = "(string \<times> jsval) list"

text \<open>ToBoolean: what \<open>!x\<close> and \<open>x || y\<close> test.\<close>

fun truthy :: "jsval \<Rightarrow> bool" where
  "truthy JUndefined = False"
| "truthy JNull = False"
| "truthy (JBool b) = b"
| "truthy (JNum n) = (n \<noteq> 0)"
| "truthy (JStr s) = (s \<noteq> [])"
| "truthy (JArr xs) = True"
| "truthy (JObj kvs) = True"

text \<open>Property read \<open>o.k\<close> on an object.\<close>

definition get :: "obj \<Rightarrow> string \<Rightarrow> jsval" where
  "get ob k = (case map_of ob k of None \<Rightarrow> JUndefined | Some v \<Rightarrow> v)"

text \<open>
  Strict equality \<open>===\<close>, which is also what \<open>Array.prototype.includes\<close> decides on
  values without NaN. Arrays and objects are compared by reference; the two sides always
  come from different JSON documents (a request body and a database reply), so they are
  never the same object.
\<close>

fun strict_eq :: "jsval \<Rightarrow> jsval \<Rightarrow> bool" where
  "strict_eq JUndefined JUndefined = True"
| "strict_eq JNull JNull = True"
| "strict_eq (JBool a) (JBool b) = (a = b)"
| "strict_eq (JNum a) (JNum b) = (a = b)"
| "strict_eq (JStr a) (JStr b) = (a = b)"
| "strict_eq _ _ = False"

definition array_includes :: "jsval list \<Rightarrow> jsval \<Rightarrow> bool" where
  "array_includes xs v = list_ex (\<lambda>u. strict_eq u v) xs"

text \<open>\<open>Array.isArray(v) ? v : []\<close>\<close>

fun array_or_empty :: "jsval \<Rightarrow> jsval list" where
  "array_or_empty (JArr xs) = xs"
| "array_or_empty _ = []"

text \<open>\<open>s.split(c)\<close> for a one-character separator: never the empty list.\<close>

fun split_on :: "char \<Rightarrow> string \<Rightarrow> string list" where
  "split_on c [] = [[]]"
| "split_on c (x # xs) =
     (if x = c then [] # split_on c xs
      else (case split_on c xs of
              [] \<Rightarrow> [[x]]
            | p # ps \<Rightarrow> (x # p) # ps))"

text \<open>\<open>s.indexOf(p)\<close>: the first position where \<open>p\<close> occurs, \<open>None\<close> for \<open>-1\<close>.\<close>

fun indexOf :: "string \<Rightarrow> string \<Rightarrow> nat option" where
  "indexOf [] p = (if p = [] then Some 0 else None)"
| "indexOf (c # cs) p =
     (if take (length p) (c # cs) = p then Some 0
      else map_option Suc (indexOf cs p))"

text \<open>\<open>s.replace('.', '')\<close>: removes the first dot only.\<close>

fun remove_first_dot :: "string \<Rightarrow> string" where
  "remove_first_dot [] = []"
| "remove_first_dot (c # cs) = (if c = CHR ''.'' then cs else c # remove_first_dot cs)"

text \<open>\<open>parts.filter(Boolean).join('/')\<close> on strings.\<close>

fun join_slash :: "string list \<Rightarrow> string" where
  "join_slash [] = []"
| "join_slash [p] = p"
| "join_slash (p # q # ps) = p @ ''/'' @ join_slash (q # ps)"

definition filter_join :: "string list \<Rightarrow> string" where
  "filter_join parts = join_slash (filter (\<lambda>p. p \<noteq> []) parts)"

section \<open>Requests, responses and the external services\<close>

text \<open>
  A file as multer hands it over (\<open>buffer\<close>, \<open>mimetype\<close>, \<open>originalname\<close>); what
  the handlers read of an Express request (the Authorization header, \<open>params.id\<close>, the
  JSON body, \<open>req.files\<close>); a response (\<open>res.status(code).json(value)\<close>); and the
  identity the auth provider returns for a token (\<open>data.user\<close>).
\<close>

record upfile =
  file_buffer :: "nat list"
  file_mimetype :: string
  file_originalname :: string

record request =
  authorization :: "string option"
  param_id :: string
  body :: obj
  files :: "upfile list"

record response =
  status :: nat
  json :: jsval

definition respond :: "nat \<Rightarrow> obj \<Rightarrow> response" where
  "respond code ob = \<lparr>status = code, json = JObj ob\<rparr>"

record user =
  uid :: string
  email :: string

text \<open>The error object of the client: its \<open>code\<close> and its \<open>message\<close>.\<close>

datatype error = Error (code: string) (message: string)

text \<open>
  What a call to an external service gives back: the client's \<open>{data, error}\<close> pair
  with \<open>error\<close> null (\<open>Data\<close>) or set (\<open>Err\<close>), or a rejected promise (\<open>Thrown\<close>, with
  the exception's message).
\<close>

datatype 'a reply = Data 'a | Err error | Thrown string

text \<open>
  A failure of the service itself (network, schema, constraint), decided outside the
  program: the call behaves normally (\<open>NoFault\<close>), returns an error object, or throws.
\<close>

datatype fault = NoFault | Fails error | Throws string

record mail =
  mail_from :: string
  mail_to :: jsval
  mail_subject :: string
  mail_text :: string

text \<open>
  The calls the program issues to the services, as logged in the world: the token check;
  select, insert and update on a table (with the row key and the serialised payload); an
  upload (bucket, key, content type, upsert flag); a removal (bucket, paths); a mail.
\<close>

datatype call =
    AuthGetUser string
  | DbSelect string string
  | DbInsert string obj
  | DbUpdate string string obj
  | StorageUpload string string string bool
  | StorageRemove string "string list"
  | SendMail mail

text \<open>
  The state the services hold: the auth provider's live access tokens, the database
  tables (rows by primary key), the buckets (objects by key), the mails delivered, and
  the calls issued so far, in order.
\<close>

record world =
  sessions :: "string \<rightharpoonup> user"
  tables :: "string \<Rightarrow> string \<rightharpoonup> obj"
  objects :: "string \<Rightarrow> string \<rightharpoonup> nat list"
  outbox :: "mail list"
  calls :: "call list"

text \<open>
  What lies outside the source for one request: the process environment, the library
  functions \<open>mime.extension\<close> (\<open>None\<close> for \<open>false\<close>), \<open>path.extname\<close> and the number
  formatting of template literals, the identifiers \<open>uuidv4()\<close> returns (by call number),
  the key the database gives an inserted row, and the fault of each service call (the
  uploads and the mail sends by call number).
\<close>

record env =
  SUPABASE_URL :: string
  MAIL_FROM :: "string option"
  MAIL_USER :: "string option"
  mime_extension :: "string \<Rightarrow> string option"
  path_extname :: "string \<Rightarrow> string"
  number_toString :: "real \<Rightarrow> string"
  uuidv4 :: "nat \<Rightarrow> string"
  new_id :: string
  getUser_fault :: fault
  adminLookup_fault :: fault
  select_fault :: fault
  insert_fault :: fault
  update_fault :: fault
  upload_fault :: "nat \<Rightarrow> fault"
  remove_fault :: fault
  sendMail_fault :: "nat \<Rightarrow> fault"

text \<open>
  The services (auth provider, database, object store, mail relay) are not part of the
  program. Each call below logs itself and then behaves as its client library documents
  on the state of the world; the fault parameter stands for every other outcome.
\<close>

definition issue :: "call \<Rightarrow> world \<Rightarrow> world" where
  "issue c w = w\<lparr>calls := calls w @ [c]\<rparr>"

text \<open>The client serialises a payload as JSON, which drops the undefined properties.\<close>

definition serialise :: "obj \<Rightarrow> obj" where
  "serialise ob = filter (\<lambda>(k, v). v \<noteq> JUndefined) ob"

definition PGRST116 :: error where
  "PGRST116 = Error ''PGRST116'' ''JSON object requested, multiple (or no) rows returned''"

text \<open>\<open>supabase.auth.getUser(token)\<close>\<close>

definition auth_getUser :: "env \<Rightarrow> string \<Rightarrow> world \<Rightarrow> user reply \<times> world" where
  "auth_getUser e token w =
     (let w' = issue (AuthGetUser token) w in
      case getUser_fault e of
        Fails er \<Rightarrow> (Err er, w')
      | Throws m \<Rightarrow> (Thrown m, w')
      | NoFault \<Rightarrow>
          (case sessions w token of
             None \<Rightarrow> (Err (Error ''bad_jwt'' ''invalid JWT''), w')
           | Some u \<Rightarrow> (Data u, w')))"

text \<open>\<open>supabase.from(t).select(..).eq(key, k).single()\<close>: no row is the error PGRST116.\<close>

definition db_select_single :: "fault \<Rightarrow> string \<Rightarrow> string \<Rightarrow> world \<Rightarrow> obj reply \<times> world" where
  "db_select_single f t k w =
     (let w' = issue (DbSelect t k) w in
      case f of
        Fails er \<Rightarrow> (Err er, w')
      | Throws m \<Rightarrow> (Thrown m, w')
      | NoFault \<Rightarrow>
          (case tables w t k of
             None \<Rightarrow> (Err PGRST116, w')
           | Some r \<Rightarrow> (Data r, w')))"

text \<open>
  \<open>supabase.from(t).insert(payload).select().single()\<close>: the database chooses the key
  and rejects a key that is taken; a failed insert writes nothing.
\<close>

definition db_insert :: "env \<Rightarrow> string \<Rightarrow> obj \<Rightarrow> world \<Rightarrow> obj reply \<times> world" where
  "db_insert e t payload w =
     (let w' = issue (DbInsert t (serialise payload)) w in
      case insert_fault e of
        Fails er \<Rightarrow> (Err er, w')
      | Throws m \<Rightarrow> (Thrown m, w')
      | NoFault \<Rightarrow>
          (case tables w t (new_id e) of
             Some r \<Rightarrow> (Err (Error ''23505'' ''duplicate key value''), w')
           | None \<Rightarrow>
               (let r = AList.update ''id'' (JStr (new_id e)) (serialise payload) in
                (Data r, w'\<lparr>tables := (tables w')(t := (tables w' t)(new_id e \<mapsto> r))\<rparr>))))"

text \<open>
  \<open>supabase.from(t).update(payload).eq('id', k).select().single()\<close>: the columns the
  payload names are overwritten, the others kept; a failed update writes nothing. The
  primary key is the key of the table; a payload's own \<open>id\<close> entry does not move the row.
\<close>

definition db_update :: "env \<Rightarrow> string \<Rightarrow> string \<Rightarrow> obj \<Rightarrow> world \<Rightarrow> obj reply \<times> world" where
  "db_update e t k payload w =
     (let w' = issue (DbUpdate t k (serialise payload)) w in
      case update_fault e of
        Fails er \<Rightarrow> (Err er, w')
      | Throws m \<Rightarrow> (Thrown m, w')
      | NoFault \<Rightarrow>
          (case tables w t k of
             None \<Rightarrow> (Err PGRST116, w')
           | Some r \<Rightarrow>
               (let r' = AList.merge r (serialise payload) in
                (Data r', w'\<lparr>tables := (tables w')(t := (tables w' t)(k \<mapsto> r'))\<rparr>))))"

text \<open>
  \<open>supabase.storage.from(b).upload(key, buffer, {contentType, upsert})\<close>: without upsert
  an existing key is refused.
\<close>

definition storage_upload ::
  "fault \<Rightarrow> string \<Rightarrow> string \<Rightarrow> nat list \<Rightarrow> string \<Rightarrow> bool \<Rightarrow> world \<Rightarrow> unit reply \<times> world" where
  "storage_upload f b key buf contentType upsert w =
     (let w' = issue (StorageUpload b key contentType upsert) w in
      case f of
        Fails er \<Rightarrow> (Err er, w')
      | Throws m \<Rightarrow> (Thrown m, w')
      | NoFault \<Rightarrow>
          (if objects w b key \<noteq> None \<and> \<not> upsert
           then (Err (Error ''Duplicate'' ''The resource already exists''), w')
           else (Data (), w'\<lparr>objects := (objects w')(b := (objects w' b)(key \<mapsto> buf))\<rparr>)))"

text \<open>\<open>supabase.storage.from(b).getPublicUrl(key)\<close>: no call to the service.\<close>

definition getPublicUrl :: "env \<Rightarrow> string \<Rightarrow> string \<Rightarrow> string" where
  "getPublicUrl e b key = SUPABASE_URL e @ ''/storage/v1/object/public/'' @ b @ ''/'' @ key"

text \<open>\<open>supabase.storage.from(b).remove(paths)\<close>: an absent object is no error.\<close>

definition storage_remove :: "env \<Rightarrow> string \<Rightarrow> string list \<Rightarrow> world \<Rightarrow> unit reply \<times> world" where
  "storage_remove e b paths w =
     (let w' = issue (StorageRemove b paths) w in
      case remove_fault e of
        Fails er \<Rightarrow> (Err er, w')
      | Throws m \<Rightarrow> (Thrown m, w')
      | NoFault \<Rightarrow>
          (Data (),
           w'\<lparr>objects := (objects w')
                (b := (\<lambda>k. if k \<in> set paths then None else objects w b k))\<rparr>))"

text \<open>
  \<open>transporter.sendMail(options)\<close>: the promise resolves once the relay has taken the
  mail, and rejects with the error's message otherwise.
\<close>

definition sendMail :: "fault \<Rightarrow> mail \<Rightarrow> world \<Rightarrow> (string + unit) \<times> world" where
  "sendMail f m w =
     (let w' = issue (SendMail m) w in
      case f of
        Fails er \<Rightarrow> (Inl (message er), w')
      | Throws msg \<Rightarrow> (Inl msg, w')
      | NoFault \<Rightarrow> (Inr (), w'\<lparr>outbox := outbox w' @ [m]\<rparr>))"

section \<open>The auth gate\<close>

text \<open>\<open>req.header('Authorization')?.split(' ')[1]\<close>, \<open>None\<close> for \<open>undefined\<close>.\<close>

definition bearer_token :: "string option \<Rightarrow> string option" where
  "bearer_token h =
     (case h of
        None \<Rightarrow> None
      | Some s \<Rightarrow> (case split_on CHR '' '' s of
                    a # t # rest \<Rightarrow> Some t
                  | _ \<Rightarrow> None))"

definition verifySupabaseUser :: "env \<Rightarrow> request \<Rightarrow> world \<Rightarrow> (response + user) \<times> world" where
  "verifySupabaseUser e req w =
     (case bearer_token (authorization req) of
        None \<Rightarrow> (Inl (respond 403 [(''message'', JStr ''Access denied: missing token'')]), w)
      | Some token \<Rightarrow>
          if token = [] then
            (Inl (respond 403 [(''message'', JStr ''Access denied: missing token'')]), w)
          else
            (case auth_getUser e token w of
               (Thrown m, w') \<Rightarrow> (Inl (respond 500 [(''message'', JStr ''Server error'')]), w')
             | (Err er, w') \<Rightarrow>
                 (Inl (respond 401 [(''message'', JStr ''Invalid or expired Supabase token'')]), w')
             | (Data u, w') \<Rightarrow> (Inr u, w')))"

definition requireAdmin :: "env \<Rightarrow> user \<Rightarrow> world \<Rightarrow> (response + obj) \<times> world" where
  "requireAdmin e u w =
     (let authUserId = uid u in
      if authUserId = [] then (Inl (respond 401 [(''message'', JStr ''Unauthorized'')]), w)
      else
        (case db_select_single (adminLookup_fault e) ''admin_users'' authUserId w of
           (Thrown m, w') \<Rightarrow> (Inl (respond 500 [(''message'', JStr ''Server error'')]), w')
         | (Err er, w') \<Rightarrow>
             if code er \<noteq> ''PGRST116''
             then (Inl (respond 500 [(''message'', JStr ''Server error'')]), w')
             else (Inl (respond 403 [(''message'', JStr ''Admin privileges required'')]), w')
         | (Data adminRow, w') \<Rightarrow>
             if \<not> truthy (get adminRow ''is_admin'')
             then (Inl (respond 403 [(''message'', JStr ''Admin privileges required'')]), w')
             else (Inr [(''auth_user_id'', get adminRow ''auth_user_id''),
                        (''is_admin'', get adminRow ''is_admin'')], w')))"

text \<open>
  An admin route is \<open>router.METHOD(path, verifySupabaseUser, requireAdmin, handler)\<close>:
  a middleware that responds ends the request, one that calls \<open>next()\<close> hands over
  to the next. \<open>auth_gate\<close> is the two middlewares in a row; it hands \<open>req.user\<close> over.
\<close>

definition auth_gate :: "env \<Rightarrow> request \<Rightarrow> world \<Rightarrow> (response + user) \<times> world" where
  "auth_gate e req w =
     (case verifySupabaseUser e req w of
        (Inl r, w1) \<Rightarrow> (Inl r, w1)
      | (Inr u, w1) \<Rightarrow>
          (case requireAdmin e u w1 of
             (Inl r, w2) \<Rightarrow> (Inl r, w2)
           | (Inr adm, w2) \<Rightarrow> (Inr u, w2)))"

definition admin_route ::
  "(env \<Rightarrow> user \<Rightarrow> request \<Rightarrow> world \<Rightarrow> response \<times> world) \<Rightarrow>
   env \<Rightarrow> request \<Rightarrow> world \<Rightarrow> response \<times> world" where
  "admin_route handler e req w =
     (case auth_gate e req w of
        (Inl r, w1) \<Rightarrow> (r, w1)
      | (Inr u, w1) \<Rightarrow> handler e u req w1)"

section \<open>The object-storage adapter\<close>

definition REVIEW_BUCKET :: string where
  "REVIEW_BUCKET = ''review-images''"

definition PROPERTY_BUCKET :: string where
  "PROPERTY_BUCKET = ''property-images''"

text \<open>
  \<open>mime.extension(mimetype) || path.extname(originalName).replace('.', '') || 'bin'\<close>:
  \<open>false\<close> and the empty string are both falsy.
\<close>

definition file_ext :: "env \<Rightarrow> string \<Rightarrow> string \<Rightarrow> string" where
  "file_ext e originalName mimetype =
     (let m = (case mime_extension e mimetype of None \<Rightarrow> [] | Some x \<Rightarrow> x);
          p = remove_first_dot (path_extname e originalName)
      in if m \<noteq> [] then m else if p \<noteq> [] then p else ''bin'')"

text \<open>
  \<open>uploadToBucket\<close>; \<open>n\<close> counts the calls of the request, for \<open>uuidv4()\<close> and the
  upload's fault. \<open>Inl\<close> is the message of the error thrown.
\<close>

definition uploadToBucket ::
  "env \<Rightarrow> nat \<Rightarrow> string \<Rightarrow> nat list \<Rightarrow> string \<Rightarrow> string \<Rightarrow> string \<Rightarrow> world \<Rightarrow>
   (string + string \<times> string) \<times> world" where
  "uploadToBucket e n bucket fileBuffer originalName mimetype subfolder w =
     (let ext = file_ext e originalName mimetype;
          key = filter_join [subfolder, uuidv4 e n @ ''.'' @ ext]
      in case storage_upload (upload_fault e n) bucket key fileBuffer mimetype False w of
           (Thrown m, w') \<Rightarrow> (Inl m, w')
         | (Err upErr, w') \<Rightarrow> (Inl (message upErr), w')
         | (Data _, w') \<Rightarrow> (Inr (key, getPublicUrl e bucket key), w'))"

section \<open>The contact-form notifier\<close>

fun join_comma :: "string list \<Rightarrow> string" where
  "join_comma [] = []"
| "join_comma [p] = p"
| "join_comma (p # q # ps) = p @ '','' @ join_comma (q # ps)"

text \<open>
  ToString, as a template literal applies it; \<open>None\<close> is the TypeError
  \<open>Cannot convert object to primitive value\<close>. A parsed JSON object inherits a callable
  \<open>toString\<close> (giving \<open>[object Object]\<close>) unless it has an own property of that name: an
  own \<open>toString\<close> is never callable, and \<open>valueOf\<close>, own or inherited, gives no
  primitive either, so the conversion throws. An array joins the strings of its elements
  (empty for null and undefined) and throws when one of them does. The numbers go by the
  parameter.
\<close>

fun toString :: "(real \<Rightarrow> string) \<Rightarrow> jsval \<Rightarrow> string option" where
  "toString f JUndefined = Some ''undefined''"
| "toString f JNull = Some ''null''"
| "toString f (JBool b) = Some (if b then ''true'' else ''false'')"
| "toString f (JNum n) = Some (f n)"
| "toString f (JStr s) = Some s"
| "toString f (JArr xs) =
     map_option join_comma
       (those (map (\<lambda>x. if x = JUndefined \<or> x = JNull then Some [] else toString f x) xs))"
| "toString f (JObj kvs) =
     (if map_of kvs ''toString'' = None then Some ''[object Object]'' else None)"

text \<open>\<open>s.trim()\<close>, on the ASCII white space.\<close>

definition is_space :: "char \<Rightarrow> bool" where
  "is_space c = (c \<in> {CHR '' '', CHR 0x09, CHR 0x0A, CHR 0x0B, CHR 0x0C, CHR 0x0D})"

definition trim :: "string \<Rightarrow> string" where
  "trim s = rev (dropWhile is_space (rev (dropWhile is_space s)))"

text \<open>\<open>a || b\<close> where \<open>a\<close> is a string or undefined.\<close>

definition or_string :: "string option \<Rightarrow> string \<Rightarrow> string" where
  "or_string a b = (case a of None \<Rightarrow> b | Some s \<Rightarrow> if s = [] then b else s)"

definition sender :: "env \<Rightarrow> string" where
  "sender e = or_string (MAIL_FROM e) (or_string (MAIL_USER e) [])"

text \<open>
  The template literal of \<open>mailOptions\<close> and \<open>mailOptions2\<close>: the five fields are
  converted in the order written, then the text is trimmed; \<open>None\<close> when a conversion
  throws.
\<close>

definition contact_text :: "env \<Rightarrow> obj \<Rightarrow> string option" where
  "contact_text e formData =
     (case those (map (\<lambda>k. toString (number_toString e) (get formData k))
                   [''name'', ''phone'', ''email'', ''subject'', ''countryCode'']) of
        Some [nm, ph, em, sb, cc] \<Rightarrow>
          Some (trim (''\<newline>Name: '' @ nm
                  @ ''\<newline>Phone Number: '' @ ph
                  @ ''\<newline>Email: '' @ em
                  @ ''\<newline>Subject: '' @ sb
                  @ ''\<newline>Country Code: '' @ cc
                  @ ''\<newline>''))
      | _ \<Rightarrow> None)"

definition TypeError_message :: string where
  "TypeError_message = ''Cannot convert object to primitive value''"

text \<open>
  \<open>sendContactForm\<close>: each options object is built (its text formatted) before its
  send; an exception while formatting rejects the promise like a failed send.
\<close>

definition sendContactForm :: "env \<Rightarrow> obj \<Rightarrow> world \<Rightarrow> (string + unit) \<times> world" where
  "sendContactForm e formData w =
     (case contact_text e formData of
        None \<Rightarrow> (Inl TypeError_message, w)
      | Some text1 \<Rightarrow>
          (let mailOptions =
                 \<lparr>mail_from = sender e,
                  mail_to = get formData ''email'',
                  mail_subject = ''New Contact Form'',
                  mail_text = text1\<rparr>
           in case sendMail (sendMail_fault e 0) mailOptions w of
                (Inl m, w1) \<Rightarrow> (Inl m, w1)
              | (Inr info, w1) \<Rightarrow>
                  (case contact_text e formData of
                     None \<Rightarrow> (Inl TypeError_message, w1)
                   | Some text2 \<Rightarrow>
                       (let mailOptions2 =
                              \<lparr>mail_from = sender e,
                               mail_to = JStr (sender e),
                               mail_subject = ''New Contact Form'',
                               mail_text = text2\<rparr>
                        in sendMail (sendMail_fault e 1) mailOptions2 w1))))"

text \<open>\<open>POST /contactform\<close>\<close>

definition contactform :: "env \<Rightarrow> request \<Rightarrow> world \<Rightarrow> response \<times> world" where
  "contactform e req w =
     (let formData = body req in
      if \<not> truthy (get formData ''name'') \<or> \<not> truthy (get formData ''phone'')
         \<or> \<not> truthy (get formData ''email'')
      then (respond 400 [(''message'', JStr ''Missing required fields'')], w)
      else
        (case sendContactForm e formData w of
           (Inr u, w') \<Rightarrow>
             (respond 200 [(''message'', JStr ''Form submitted successfully, email sent.'')], w')
         | (Inl m, w') \<Rightarrow>
             (respond 500 [(''message'', JStr ''Error sending email''), (''error'', JStr m)], w')))"

section \<open>The property handlers\<close>

text \<open>\<open>POST /admin/properties\<close>\<close>

definition create_property :: "env \<Rightarrow> user \<Rightarrow> request \<Rightarrow> world \<Rightarrow> response \<times> world" where
  "create_property e u req w =
     (let b = body req;
          name = get b ''name'';
          description = get b ''description'';
          price = get b ''price'';
          location = get b ''location'';
          owner = get b ''owner'';
          area = get b ''area'';
          exactAddress = get b ''exactAddress'';
          bhkType = get b ''bhkType'';
          amenities = get b ''amenities'';
          ratings = get b ''ratings'';
          reviews = get b ''reviews'';
          image = get b ''image''
      in
      if \<not> truthy name \<or> \<not> truthy owner \<or> \<not> truthy price \<or> \<not> truthy area
         \<or> \<not> truthy exactAddress \<or> \<not> truthy bhkType \<or> \<not> truthy location
      then (respond 400 [(''message'', JStr ''Missing required fields'')], w)
      else
        (let payload =
               [(''name'', name),
                (''description'', description),
                (''price'', price),
                (''location'', location),
                (''owner'', owner),
                (''area'', area),
                (''exactAddress'', exactAddress),
                (''bhkType'', bhkType),
                (''amenities'', amenities),
                (''ratings'', ratings),
                (''reviews'', reviews),
                (''image'', image),
                (''created_by'', JStr (uid u))]
         in case db_insert e ''properties'' payload w of
              (Err er, w') \<Rightarrow>
                (respond 500 [(''message'', JStr ''Error creating property''),
                              (''error'', JStr (message er))], w')
            | (Thrown m, w') \<Rightarrow>
                (respond 500 [(''message'', JStr ''Error creating property''),
                              (''error'', JStr m)], w')
            | (Data d, w') \<Rightarrow> (\<lparr>status = 201, json = JObj d\<rparr>, w')))"

text \<open>
  The loop of the attach handler: each file goes to the bucket in turn, its public URL
  is pushed onto \<open>uploaded\<close>; an upload that throws ends the loop.
\<close>

fun upload_loop ::
  "env \<Rightarrow> string \<Rightarrow> upfile list \<Rightarrow> nat \<Rightarrow> jsval list \<Rightarrow> world \<Rightarrow> (string + jsval list) \<times> world" where
  "upload_loop e sub [] n uploaded w = (Inr uploaded, w)"
| "upload_loop e sub (f # fs) n uploaded w =
     (case uploadToBucket e n PROPERTY_BUCKET (file_buffer f) (file_originalname f) (file_mimetype f) sub w of
        (Inl m, w') \<Rightarrow> (Inl m, w')
      | (Inr (key, publicUrl), w') \<Rightarrow>
          upload_loop e sub fs (Suc n) (uploaded @ [JStr publicUrl]) w')"

text \<open>\<open>POST /admin/properties/:id/upload-images\<close>, after the gate and multer.\<close>

definition upload_images :: "env \<Rightarrow> user \<Rightarrow> request \<Rightarrow> world \<Rightarrow> response \<times> world" where
  "upload_images e u req w =
     (let id = param_id req in
      if files req = [] then (respond 400 [(''message'', JStr ''No files uploaded'')], w)
      else
        (case db_select_single (select_fault e) ''properties'' id w of
           (Thrown m, w1) \<Rightarrow>
             (respond 500 [(''message'', JStr ''Upload failed''), (''error'', JStr m)], w1)
         | (Err getErr, w1) \<Rightarrow>
             if code getErr = ''PGRST116''
             then (respond 404 [(''message'', JStr ''Property not found'')], w1)
             else (respond 500 [(''message'', JStr ''Error reading property''),
                                (''error'', JStr (message getErr))], w1)
         | (Data prop, w1) \<Rightarrow>
             (case upload_loop e (''properties/'' @ id) (files req) 0 [] w1 of
                (Inl m, w2) \<Rightarrow>
                  (respond 500 [(''message'', JStr ''Upload failed''), (''error'', JStr m)], w2)
              | (Inr uploaded, w2) \<Rightarrow>
                  (let current = array_or_empty (get prop ''images'');
                       updatedImages = current @ uploaded
                   in case db_update e ''properties'' id [(''images'', JArr updatedImages)] w2 of
                        (Err updErr, w3) \<Rightarrow>
                          (respond 500 [(''message'', JStr ''Failed to save image URLs''),
                                        (''error'', JStr (message updErr))], w3)
                      | (Thrown m, w3) \<Rightarrow>
                          (respond 500 [(''message'', JStr ''Upload failed''),
                                        (''error'', JStr m)], w3)
                      | (Data updated, w3) \<Rightarrow>
                          (respond 200 [(''message'', JStr ''Uploaded''),
                                        (''images'', get updated ''images'')], w3)))))"

text \<open>
  \<open>upload.array('files', 10)\<close> with \<open>limits.fileSize\<close> of 10 MiB: more files or a larger
  file end the request with multer's error (Express answers 500; its error page is not
  modelled).
\<close>

definition multer_array :: "nat \<Rightarrow> upfile list \<Rightarrow> response + upfile list" where
  "multer_array maxCount fs =
     (if maxCount < length fs \<or> list_ex (\<lambda>f. 10 * 1024 * 1024 < length (file_buffer f)) fs
      then Inl \<lparr>status = 500, json = JStr ''MulterError''\<rparr>
      else Inr fs)"

definition upload_images_route :: "env \<Rightarrow> request \<Rightarrow> world \<Rightarrow> response \<times> world" where
  "upload_images_route =
     admin_route (\<lambda>e u req w.
       case multer_array 10 (files req) of
         Inl r \<Rightarrow> (r, w)
       | Inr fs \<Rightarrow> upload_images e u req w)"

text \<open>\<open>DELETE /admin/properties/:id/images\<close>\<close>

definition delete_image :: "env \<Rightarrow> user \<Rightarrow> request \<Rightarrow> world \<Rightarrow> response \<times> world" where
  "delete_image e u req w =
     (let id = param_id req;
          url = get (body req) ''url''
      in
      if \<not> truthy url then (respond 400 [(''message'', JStr ''Missing url'')], w)
      else
        (case db_select_single (select_fault e) ''properties'' id w of
           (Thrown m, w1) \<Rightarrow>
             (respond 500 [(''message'', JStr ''Delete failed''), (''error'', JStr m)], w1)
         | (Err getErr, w1) \<Rightarrow>
             if code getErr = ''PGRST116''
             then (respond 404 [(''message'', JStr ''Property not found'')], w1)
             else (respond 500 [(''message'', JStr ''Error reading property''),
                                (''error'', JStr (message getErr))], w1)
         | (Data prop, w1) \<Rightarrow>
             (let images = array_or_empty (get prop ''images'') in
              if \<not> array_includes images url
              then (respond 400 [(''message'', JStr ''URL not found on property'')], w1)
              else
                (case url of
                   JStr s \<Rightarrow>
                     (let base = ''/storage/v1/object/public/'' @ PROPERTY_BUCKET @ ''/'' in
                      case indexOf s base of
                        None \<Rightarrow>
                          (respond 400 [(''message'', JStr ''Unrecognized storage URL'')], w1)
                      | Some idx \<Rightarrow>
                          (let objectPath = drop (idx + length base) s in
                           case storage_remove e PROPERTY_BUCKET [objectPath] w1 of
                             (Thrown m, w2) \<Rightarrow>
                               (respond 500 [(''message'', JStr ''Delete failed''),
                                             (''error'', JStr m)], w2)
                           | (Err delErr, w2) \<Rightarrow>
                               (respond 500 [(''message'', JStr ''Failed to delete file''),
                                             (''error'', JStr (message delErr))], w2)
                           | (Data d, w2) \<Rightarrow>
                               (let newImages = filter (\<lambda>u. \<not> strict_eq u url) images in
                                case db_update e ''properties'' id
                                       [(''images'', JArr newImages)] w2 of
                                  (Err updErr, w3) \<Rightarrow>
                                    (respond 500 [(''message'', JStr ''Failed to update DB''),
                                                  (''error'', JStr (message updErr))], w3)
                                | (Thrown m, w3) \<Rightarrow>
                                    (respond 500 [(''message'', JStr ''Delete failed''),
                                                  (''error'', JStr m)], w3)
                                | (Data updated, w3) \<Rightarrow>
                                    (respond 200 [(''message'', JStr ''Removed''),
                                                  (''images'', get updated ''images'')], w3))))
                 | _ \<Rightarrow>
                     (respond 500 [(''message'', JStr ''Delete failed''),
                                   (''error'', JStr ''url.indexOf is not a function'')], w1)))))"

text \<open>\<open>PUT /admin/properties/:id\<close>\<close>

definition update_property :: "env \<Rightarrow> user \<Rightarrow> request \<Rightarrow> world \<Rightarrow> response \<times> world" where
  "update_property e u req w =
     (let id = param_id req in
      case db_select_single (select_fault e) ''properties'' id w of
        (Thrown m, w1) \<Rightarrow>
          (respond 500 [(''message'', JStr ''Error updating property''), (''error'', JStr m)], w1)
      | (Err getErr, w1) \<Rightarrow>
          if code getErr = ''PGRST116''
          then (respond 404 [(''message'', JStr ''Property not found'')], w1)
          else (respond 500 [(''message'', JStr ''Error updating property''),
                             (''error'', JStr (message getErr))], w1)
      | (Data d, w1) \<Rightarrow>
          (case db_update e ''properties'' id (body req) w1 of
             (Err er, w2) \<Rightarrow>
               (respond 500 [(''message'', JStr ''Error updating property''),
                             (''error'', JStr (message er))], w2)
           | (Thrown m, w2) \<Rightarrow>
               (respond 500 [(''message'', JStr ''Error updating property''),
                             (''error'', JStr m)], w2)
           | (Data row, w2) \<Rightarrow>
               (respond 200 [(''message'', JStr ''Property updated successfully''),
                             (''property'', JObj row)], w2)))"

section \<open>The review handlers\<close>


section \<open>Vocabulary of the properties\<close>

text \<open>The seven fields the create handler requires (the condition of its first test).\<close>

definition required_fields :: "string list" where
  "required_fields =
     [''name'', ''owner'', ''price'', ''area'', ''exactAddress'', ''bhkType'', ''location'']"

text \<open>The calls that write to a service.\<close>

fun is_insert :: "call \<Rightarrow> bool" where
  "is_insert (DbInsert t p) = True"
| "is_insert _ = False"

fun is_mail :: "call \<Rightarrow> bool" where
  "is_mail (SendMail m) = True"
| "is_mail _ = False"

fun is_write :: "call \<Rightarrow> bool" where
  "is_write (AuthGetUser t) = False"
| "is_write (DbSelect t k) = False"
| "is_write _ = True"

text \<open>
  Two worlds with the same service state, whose logs differ at most by reads (token
  checks and selects).
\<close>

definition same_store :: "world \<Rightarrow> world \<Rightarrow> bool" where
  "same_store w w1 =
     (sessions w1 = sessions w \<and> tables w1 = tables w \<and> objects w1 = objects w
      \<and> outbox w1 = outbox w \<and> filter is_write (calls w1) = filter is_write (calls w))"

text \<open>The payload the create handler builds from the user and the body.\<close>

definition property_payload :: "user \<Rightarrow> obj \<Rightarrow> obj" where
  "property_payload u b =
     [(''name'', get b ''name''),
      (''description'', get b ''description''),
      (''price'', get b ''price''),
      (''location'', get b ''location''),
      (''owner'', get b ''owner''),
      (''area'', get b ''area''),
      (''exactAddress'', get b ''exactAddress''),
      (''bhkType'', get b ''bhkType''),
      (''amenities'', get b ''amenities''),
      (''ratings'', get b ''ratings''),
      (''reviews'', get b ''reviews''),
      (''image'', get b ''image''),
      (''created_by'', JStr (uid u))]"

text \<open>
  The object key in the words of the specification: the extension derived from the MIME
  type when that derivation succeeds, otherwise the extension of the original filename
  (without its dot) when it has one, otherwise \<open>bin\<close>; the key is the generated
  identifier, a dot and that extension, under the folder prefix when one is given.
\<close>

definition mime_derived :: "env \<Rightarrow> string \<Rightarrow> string option" where
  "mime_derived e m =
     (case mime_extension e m of None \<Rightarrow> None | Some x \<Rightarrow> if x = [] then None else Some x)"

definition name_extension :: "env \<Rightarrow> string \<Rightarrow> string option" where
  "name_extension e f =
     (let p = remove_first_dot (path_extname e f) in if p = [] then None else Some p)"

definition spec_extension :: "env \<Rightarrow> string \<Rightarrow> string \<Rightarrow> string" where
  "spec_extension e f m =
     (case mime_derived e m of
        Some x \<Rightarrow> x
      | None \<Rightarrow> (case name_extension e f of Some p \<Rightarrow> p | None \<Rightarrow> ''bin''))"

definition spec_key :: "env \<Rightarrow> nat \<Rightarrow> string \<Rightarrow> string \<Rightarrow> string \<Rightarrow> string" where
  "spec_key e n sub f m =
     (if sub = [] then [] else sub @ ''/'') @ uuidv4 e n @ ''.'' @ spec_extension e f m"

text \<open>
  The message a failed call carries, and the two mails of a contact-form submission: the
  options objects \<open>mailOptions\<close> and \<open>mailOptions2\<close> of \<open>sendContactForm\<close>, for the
  formatted text \<open>t\<close>.
\<close>

fun fault_message :: "fault \<Rightarrow> string" where
  "fault_message NoFault = []"
| "fault_message (Fails er) = message er"
| "fault_message (Throws m) = m"

definition submitter_mail :: "env \<Rightarrow> obj \<Rightarrow> string \<Rightarrow> mail" where
  "submitter_mail e formData t =
     \<lparr>mail_from = sender e, mail_to = get formData ''email'',
      mail_subject = ''New Contact Form'', mail_text = t\<rparr>"

definition operator_mail :: "env \<Rightarrow> string \<Rightarrow> mail" where
  "operator_mail e t =
     \<lparr>mail_from = sender e, mail_to = JStr (sender e),
      mail_subject = ''New Contact Form'', mail_text = t\<rparr>"

text \<open>Updates among the calls; the URL prefix the detach handler looks for; the row a detach leaves.\<close>

fun is_update :: "call \<Rightarrow> bool" where
  "is_update (DbUpdate t k p) = True"
| "is_update _ = False"

definition storage_base :: string where
  "storage_base = ''/storage/v1/object/public/'' @ PROPERTY_BUCKET @ ''/''"

definition detached :: "jsval \<Rightarrow> obj \<Rightarrow> obj" where
  "detached url prop =
     AList.merge prop
       [(''images'', JArr (filter (\<lambda>u. \<not> strict_eq u url) (array_or_empty (get prop ''images''))))]"

text \<open>
  The keys and public URLs an attach request gives its files, in file order (the file at
  position \<open>k\<close> gets the identifier of call \<open>k\<close>), and the row an attach leaves.
\<close>

fun attach_keys :: "env \<Rightarrow> string \<Rightarrow> upfile list \<Rightarrow> nat \<Rightarrow> string list" where
  "attach_keys e sub [] n = []"
| "attach_keys e sub (f # fs) n =
     spec_key e n sub (file_originalname f) (file_mimetype f) # attach_keys e sub fs (Suc n)"

definition attach_urls :: "env \<Rightarrow> string \<Rightarrow> upfile list \<Rightarrow> string list" where
  "attach_urls e i fs =
     map (getPublicUrl e PROPERTY_BUCKET) (attach_keys e (''properties/'' @ i) fs 0)"

definition attached :: "string list \<Rightarrow> obj \<Rightarrow> obj" where
  "attached urls pr =
     AList.merge pr [(''images'', JArr (array_or_empty (get pr ''images'') @ map JStr urls))]"




section \<open>A sample environment and world\<close>

text \<open>
  One administrator (token \<open>tokA\<close>), one visitor without the admin flag (token \<open>tokB\<close>),
  one property, and services without faults.
\<close>

definition demo_env :: env where
  "demo_env =
     \<lparr>SUPABASE_URL = ''https://demo.supabase.co'',
      MAIL_FROM = Some ''office@example.com'',
      MAIL_USER = None,
      mime_extension = (\<lambda>m. if m = ''image/png'' then Some ''png'' else None),
      path_extname = (\<lambda>f. if f = ''plan.jpeg'' then ''.jpeg'' else []),
      number_toString = (\<lambda>r. ''0''),
      uuidv4 = (\<lambda>n. if n = 0 then ''aaaa'' else ''bbbb''),
      new_id = ''2'',
      getUser_fault = NoFault,
      adminLookup_fault = NoFault,
      select_fault = NoFault,
      insert_fault = NoFault,
      update_fault = NoFault,
      upload_fault = (\<lambda>n. NoFault),
      remove_fault = NoFault,
      sendMail_fault = (\<lambda>n. NoFault)\<rparr>"

definition demo_admin :: user where
  "demo_admin = \<lparr>uid = ''admin-1'', email = ''admin@example.com''\<rparr>"

definition demo_visitor :: user where
  "demo_visitor = \<lparr>uid = ''user-2'', email = ''visitor@example.com''\<rparr>"

definition demo_world :: world where
  "demo_world =
     \<lparr>sessions = [''tokA'' \<mapsto> demo_admin, ''tokB'' \<mapsto> demo_visitor],
      tables = (\<lambda>t. Map.empty)
        (''admin_users'' :=
           [''admin-1'' \<mapsto> [(''auth_user_id'', JStr ''admin-1''), (''is_admin'', JBool True)],
            ''user-2'' \<mapsto> [(''auth_user_id'', JStr ''user-2''), (''is_admin'', JBool False)]],
         ''properties'' :=
           [''1'' \<mapsto> [(''id'', JStr ''1''), (''name'', JStr ''Villa''), (''owner'', JStr ''Ana''),
                        (''price'', JNum 100), (''area'', JNum 80)]]),
      objects = (\<lambda>b. Map.empty),
      outbox = [],
      calls = []\<rparr>"

definition demo_request :: "string option \<Rightarrow> string \<Rightarrow> obj \<Rightarrow> upfile list \<Rightarrow> request" where
  "demo_request a i b fs = \<lparr>authorization = a, param_id = i, body = b, files = fs\<rparr>"

definition demo_listing :: obj where
  "demo_listing =
     [(''name'', JStr ''Loft''), (''owner'', JStr ''Ben''), (''price'', JNum 250000),
      (''area'', JNum 64), (''exactAddress'', JStr ''1 Main St''), (''bhkType'', JStr ''2''),
      (''location'', JStr ''Centro'')]"

definition demo_images :: jsval where
  "demo_images = JArr [JStr ''https://cdn.example.com/a.png'']"

definition demo_contact :: obj where
  "demo_contact =
     [(''name'', JStr ''A''), (''phone'', JStr ''123''), (''email'', JStr ''a@x.com''),
      (''subject'', JStr ''hi''), (''countryCode'', JStr ''+1'')]"

definition demo_contact_object :: obj where
  "demo_contact_object =
     [(''name'', JObj [(''toString'', JNum 1)]), (''phone'', JStr ''1''),
      (''email'', JStr ''a@x'')]"

definition demo_env_mail_down :: env where
  "demo_env_mail_down = demo_env\<lparr>sendMail_fault := (\<lambda>n. Throws ''connect ECONNREFUSED'')\<rparr>"

text \<open>A world in which property 1 carries one image, and an environment whose object store refuses removals.\<close>

definition demo_photo :: string where
  "demo_photo =
     ''https://demo.supabase.co/storage/v1/object/public/property-images/properties/1/aaaa.png''"

definition demo_gallery :: world where
  "demo_gallery =
     demo_world
       \<lparr>tables := (tables demo_world)
          (''properties'' :=
             [''1'' \<mapsto> [(''id'', JStr ''1''), (''name'', JStr ''Villa''),
                          (''images'', JArr [JStr demo_photo])]]),
        objects := (\<lambda>b. Map.empty)
          (PROPERTY_BUCKET := [''properties/1/aaaa.png'' \<mapsto> [1, 2, 3]])\<rparr>"

definition demo_env_storage_down :: env where
  "demo_env_storage_down =
     demo_env\<lparr>remove_fault := Fails (Error ''503'' ''storage unavailable'')\<rparr>"

text \<open>
  A round trip on the sample world: the administrator creates a property (sending an empty
  \<open>images\<close>), attaches two files to it, and detaches the first of the two URLs.
\<close>

definition demo_files :: "upfile list" where
  "demo_files =
     [\<lparr>file_buffer = [1, 2, 3], file_mimetype = ''image/png'', file_originalname = ''front.png''\<rparr>,
      \<lparr>file_buffer = [4, 5], file_mimetype = ''application/x-plan'',
       file_originalname = ''plan.jpeg''\<rparr>]"

definition demo_url_1 :: string where
  "demo_url_1 =
     ''https://demo.supabase.co/storage/v1/object/public/property-images/properties/2/aaaa.png''"

definition demo_url_2 :: string where
  "demo_url_2 =
     ''https://demo.supabase.co/storage/v1/object/public/property-images/properties/2/bbbb.jpeg''"

definition demo_created :: world where
  "demo_created =
     snd (admin_route create_property demo_env
            (demo_request (Some ''Bearer tokA'') [] ((''images'', JArr []) # demo_listing) [])
            demo_world)"

definition demo_attached :: world where
  "demo_attached =
     snd (upload_images_route demo_env
            (demo_request (Some ''Bearer tokA'') ''2'' [] demo_files) demo_created)"

definition demo_detached :: world where
  "demo_detached =
     snd (admin_route delete_image demo_env
            (demo_request (Some ''Bearer tokA'') ''2'' [(''url'', JStr demo_url_1)] [])
            demo_attached)"



section \<open>Properties of the auth gate\<close>

lemma issue_simps:
  "sessions (issue c w) = sessions w" "tables (issue c w) = tables w"
  "objects (issue c w) = objects w" "outbox (issue c w) = outbox w"
  "calls (issue c w) = calls w @ [c]"
  by (simp_all add: issue_def)

lemma auth_getUser_world: "snd (auth_getUser e t w) = issue (AuthGetUser t) w"
  by (simp add: auth_getUser_def Let_def split: fault.splits option.splits)

lemma verify_no_token:
  "bearer_token (authorization req) = None \<or> bearer_token (authorization req) = Some [] \<Longrightarrow>
     verifySupabaseUser e req w
       = (Inl (respond 403 [(''message'', JStr ''Access denied: missing token'')]), w)"
  by (auto simp: verifySupabaseUser_def)

lemma verify_rejected:
  assumes "bearer_token (authorization req) = Some token" "token \<noteq> []"
    and "fst (auth_getUser e token w) = Err er"
  shows "verifySupabaseUser e req w
       = (Inl (respond 401 [(''message'', JStr ''Invalid or expired Supabase token'')]),
          issue (AuthGetUser token) w)"
proof -
  from assms(3) auth_getUser_world [of e token w]
  have "auth_getUser e token w = (Err er, issue (AuthGetUser token) w)"
    by (cases "auth_getUser e token w") simp
  with assms(1,2) show ?thesis by (simp add: verifySupabaseUser_def)
qed

lemma verify_accepted:
  assumes "bearer_token (authorization req) = Some token" "token \<noteq> []"
    and "fst (auth_getUser e token w) = Data u"
  shows "verifySupabaseUser e req w = (Inr u, issue (AuthGetUser token) w)"
proof -
  from assms(3) auth_getUser_world [of e token w]
  have "auth_getUser e token w = (Data u, issue (AuthGetUser token) w)"
    by (cases "auth_getUser e token w") simp
  with assms(1,2) show ?thesis by (simp add: verifySupabaseUser_def)
qed

lemma requireAdmin_forbidden:
  assumes "uid u \<noteq> []" "adminLookup_fault e = NoFault"
    and "case tables w ''admin_users'' (uid u) of
           None \<Rightarrow> True
         | Some adminRow \<Rightarrow> \<not> truthy (get adminRow ''is_admin'')"
  shows "requireAdmin e u w
       = (Inl (respond 403 [(''message'', JStr ''Admin privileges required'')]),
          issue (DbSelect ''admin_users'' (uid u)) w)"
  using assms
  by (auto simp: requireAdmin_def db_select_single_def Let_def PGRST116_def
      split: option.splits)


lemma same_store_refl: "same_store w w"
  by (simp add: same_store_def)

lemma same_store_getUser: "same_store w w1 \<Longrightarrow> same_store w (issue (AuthGetUser t) w1)"
  by (simp add: same_store_def issue_simps)

lemma same_store_select: "same_store w w1 \<Longrightarrow> same_store w (issue (DbSelect t k) w1)"
  by (simp add: same_store_def issue_simps)

lemma db_select_single_world: "snd (db_select_single f t k w) = issue (DbSelect t k) w"
  by (simp add: db_select_single_def Let_def split: fault.splits option.splits)

lemma verifySupabaseUser_frame: "same_store w (snd (verifySupabaseUser e req w))"
proof (cases "bearer_token (authorization req)")
  case None
  then show ?thesis by (simp add: verifySupabaseUser_def same_store_refl)
next
  case (Some token)
  obtain r w' where a: "auth_getUser e token w = (r, w')" by (cases "auth_getUser e token w")
  with auth_getUser_world [of e token w] have "w' = issue (AuthGetUser token) w" by simp
  then have "same_store w w'" by (simp add: same_store_getUser same_store_refl)
  with Some a show ?thesis
    by (cases r) (simp_all add: verifySupabaseUser_def same_store_refl)
qed

lemma requireAdmin_frame: "same_store w (snd (requireAdmin e u w))"
proof (cases "uid u = []")
  case True
  then show ?thesis by (simp add: requireAdmin_def same_store_refl)
next
  case False
  obtain r w' where a: "db_select_single (adminLookup_fault e) ''admin_users'' (uid u) w = (r, w')"
    by (cases "db_select_single (adminLookup_fault e) ''admin_users'' (uid u) w")
  with db_select_single_world [of "adminLookup_fault e" "''admin_users''" "uid u" w]
  have "same_store w w'" by (simp add: same_store_select same_store_refl)
  with False a show ?thesis
    by (cases r) (simp_all add: requireAdmin_def Let_def)
qed

lemma same_store_trans: "same_store w w1 \<Longrightarrow> same_store w1 w2 \<Longrightarrow> same_store w w2"
  by (simp add: same_store_def)

lemma auth_gate_frame: "auth_gate e req w = (g, w1) \<Longrightarrow> same_store w w1"
proof -
  assume g: "auth_gate e req w = (g, w1)"
  obtain v wa where v: "verifySupabaseUser e req w = (v, wa)"
    by (cases "verifySupabaseUser e req w")
  with verifySupabaseUser_frame [of w e req] have s1: "same_store w wa" by simp
  show "same_store w w1"
  proof (cases v)
    case (Inl r)
    with g v s1 show ?thesis by (simp add: auth_gate_def)
  next
    case (Inr u)
    obtain a wb where a: "requireAdmin e u wa = (a, wb)" by (cases "requireAdmin e u wa")
    with requireAdmin_frame [of wa e u] have "same_store wa wb" by simp
    with s1 have "same_store w wb" by (rule same_store_trans)
    with g v Inr a show ?thesis by (cases a) (simp_all add: auth_gate_def)
  qed
qed

text \<open>
  C1. On every admin route, whatever the handler: when the second space-separated part of
  the Authorization header is absent or empty, the answer is 403 and nothing else happens
  (the world, with its log of calls, is unchanged); when a token is there and the auth
  provider answers with an error, the answer is 401 and the only call issued is the token
  check, so the admin-flag lookup is never reached; when the provider accepts the token
  and the identity (which has an id) has no admin-flag row, or a row whose flag is false,
  the answer is 403 (not 401), after the token check and the one lookup.
\<close>

theorem auth_gate_order:
  "(bearer_token (authorization req) = None \<or> bearer_token (authorization req) = Some []
      \<longrightarrow> admin_route h e req w
            = (respond 403 [(''message'', JStr ''Access denied: missing token'')], w))
   \<and> (bearer_token (authorization req) = Some token \<and> token \<noteq> []
        \<and> fst (auth_getUser e token w) = Err er
      \<longrightarrow> admin_route h e req w
            = (respond 401 [(''message'', JStr ''Invalid or expired Supabase token'')],
               issue (AuthGetUser token) w))
   \<and> (bearer_token (authorization req) = Some token \<and> token \<noteq> []
        \<and> fst (auth_getUser e token w) = Data u \<and> uid u \<noteq> []
        \<and> adminLookup_fault e = NoFault
        \<and> (case tables w ''admin_users'' (uid u) of
              None \<Rightarrow> True
            | Some adminRow \<Rightarrow> \<not> truthy (get adminRow ''is_admin''))
      \<longrightarrow> admin_route h e req w
            = (respond 403 [(''message'', JStr ''Admin privileges required'')],
               issue (DbSelect ''admin_users'' (uid u)) (issue (AuthGetUser token) w)))"
proof (intro conjI impI)
  assume "bearer_token (authorization req) = None \<or> bearer_token (authorization req) = Some []"
  then show "admin_route h e req w
            = (respond 403 [(''message'', JStr ''Access denied: missing token'')], w)"
    by (simp add: admin_route_def auth_gate_def verify_no_token)
next
  assume "bearer_token (authorization req) = Some token \<and> token \<noteq> []
        \<and> fst (auth_getUser e token w) = Err er"
  then show "admin_route h e req w
            = (respond 401 [(''message'', JStr ''Invalid or expired Supabase token'')],
               issue (AuthGetUser token) w)"
    by (simp add: admin_route_def auth_gate_def verify_rejected)
next
  assume a: "bearer_token (authorization req) = Some token \<and> token \<noteq> []
        \<and> fst (auth_getUser e token w) = Data u \<and> uid u \<noteq> []
        \<and> adminLookup_fault e = NoFault
        \<and> (case tables w ''admin_users'' (uid u) of
              None \<Rightarrow> True
            | Some adminRow \<Rightarrow> \<not> truthy (get adminRow ''is_admin''))"
  then have v: "verifySupabaseUser e req w = (Inr u, issue (AuthGetUser token) w)"
    by (simp add: verify_accepted)
  from a have "requireAdmin e u (issue (AuthGetUser token) w)
       = (Inl (respond 403 [(''message'', JStr ''Admin privileges required'')]),
          issue (DbSelect ''admin_users'' (uid u)) (issue (AuthGetUser token) w))"
    by (intro requireAdmin_forbidden) (simp_all add: issue_simps)
  with v show "admin_route h e req w
            = (respond 403 [(''message'', JStr ''Admin privileges required'')],
               issue (DbSelect ''admin_users'' (uid u)) (issue (AuthGetUser token) w))"
    by (simp add: admin_route_def auth_gate_def)
qed

theorem auth_gate_order_witness:
  "admin_route create_property demo_env (demo_request (Some ''Bearer'') ''1'' [] []) demo_world
     = (respond 403 [(''message'', JStr ''Access denied: missing token'')], demo_world)
   \<and> admin_route create_property demo_env (demo_request (Some ''Bearer stale'') ''1'' [] [])
        demo_world
     = (respond 401 [(''message'', JStr ''Invalid or expired Supabase token'')],
        issue (AuthGetUser ''stale'') demo_world)
   \<and> admin_route create_property demo_env (demo_request (Some ''Bearer tokB'') ''1'' [] [])
        demo_world
     = (respond 403 [(''message'', JStr ''Admin privileges required'')],
        issue (DbSelect ''admin_users'' ''user-2'') (issue (AuthGetUser ''tokB'') demo_world))"
proof -
  have a: "bearer_token (authorization (demo_request (Some ''Bearer'') ''1'' [] [])) = None"
    by (simp add: bearer_token_def demo_request_def)
  have b: "bearer_token (authorization (demo_request (Some ''Bearer stale'') ''1'' [] []))
             = Some ''stale'' \<and> ''stale'' \<noteq> []
           \<and> fst (auth_getUser demo_env ''stale'' demo_world)
             = Err (Error ''bad_jwt'' ''invalid JWT'')"
    by (simp add: bearer_token_def demo_request_def auth_getUser_def demo_env_def
        demo_world_def Let_def)
  have c: "bearer_token (authorization (demo_request (Some ''Bearer tokB'') ''1'' [] []))
             = Some ''tokB'' \<and> ''tokB'' \<noteq> []
           \<and> fst (auth_getUser demo_env ''tokB'' demo_world) = Data demo_visitor
           \<and> uid demo_visitor \<noteq> [] \<and> adminLookup_fault demo_env = NoFault
           \<and> (case tables demo_world ''admin_users'' (uid demo_visitor) of
                 None \<Rightarrow> True
               | Some adminRow \<Rightarrow> \<not> truthy (get adminRow ''is_admin''))"
    by (simp add: bearer_token_def demo_request_def auth_getUser_def demo_env_def
        demo_world_def demo_visitor_def Let_def get_def)
  from a b c show ?thesis
    using auth_gate_order [of "demo_request (Some ''Bearer'') ''1'' [] []" create_property demo_env demo_world]
      auth_gate_order [of "demo_request (Some ''Bearer stale'') ''1'' [] []" create_property demo_env
            demo_world "''stale''" "Error ''bad_jwt'' ''invalid JWT''"]
      auth_gate_order [of "demo_request (Some ''Bearer tokB'') ''1'' [] []" create_property demo_env
            demo_world "''tokB''" _ demo_visitor]
    by (simp add: demo_visitor_def)
qed

section \<open>Creating a property\<close>

lemma filter_is_insert_write:
  "filter is_write cs = filter is_write ds \<Longrightarrow> filter is_insert cs = filter is_insert ds"
proof -
  have "filter is_insert xs = filter is_insert (filter is_write xs)" for xs
    by (induction xs) (auto elim: is_write.elims)
  then show "filter is_write cs = filter is_write ds \<Longrightarrow> filter is_insert cs = filter is_insert ds"
    by metis
qed

lemma create_property_rejects:
  "k \<in> set required_fields \<Longrightarrow> \<not> truthy (get (body req) k) \<Longrightarrow>
     create_property e u req w
       = (respond 400 [(''message'', JStr ''Missing required fields'')], w)"
  by (auto simp: required_fields_def create_property_def Let_def)

lemma create_property_accepts:
  "\<forall>k \<in> set required_fields. truthy (get (body req) k) \<Longrightarrow>
     create_property e u req w
       = (case db_insert e ''properties''
                 [(''name'', get (body req) ''name''),
                  (''description'', get (body req) ''description''),
                  (''price'', get (body req) ''price''),
                  (''location'', get (body req) ''location''),
                  (''owner'', get (body req) ''owner''),
                  (''area'', get (body req) ''area''),
                  (''exactAddress'', get (body req) ''exactAddress''),
                  (''bhkType'', get (body req) ''bhkType''),
                  (''amenities'', get (body req) ''amenities''),
                  (''ratings'', get (body req) ''ratings''),
                  (''reviews'', get (body req) ''reviews''),
                  (''image'', get (body req) ''image''),
                  (''created_by'', JStr (uid u))] w of
            (Err er, w') \<Rightarrow>
              (respond 500 [(''message'', JStr ''Error creating property''),
                            (''error'', JStr (message er))], w')
          | (Thrown m, w') \<Rightarrow>
              (respond 500 [(''message'', JStr ''Error creating property''),
                            (''error'', JStr m)], w')
          | (Data d, w') \<Rightarrow> (\<lparr>status = 201, json = JObj d\<rparr>, w'))"
  by (simp add: required_fields_def create_property_def Let_def)

lemma db_insert_calls:
  "db_insert e t p w = (r, w') \<Longrightarrow> calls w' = calls w @ [DbInsert t (serialise p)]"
  by (auto simp: db_insert_def Let_def issue_simps split: fault.splits option.splits)

text \<open>
  C2. A create request whose body lacks one of the seven required fields: the handler
  answers 400 and returns the world as it was, so it issues no call at all; on the route,
  a request that passes the gate gets that 400, and whatever the gate decides the tables
  are unchanged and no insert is issued.
\<close>

theorem create_property_missing_field:
  "k \<in> set required_fields \<and> map_of (body req) k = None \<longrightarrow>
     create_property e u req w
       = (respond 400 [(''message'', JStr ''Missing required fields'')], w)
     \<and> (\<forall>v w1. auth_gate e req w = (Inr v, w1) \<longrightarrow>
          admin_route create_property e req w
            = (respond 400 [(''message'', JStr ''Missing required fields'')], w1))
     \<and> tables (snd (admin_route create_property e req w)) = tables w
     \<and> filter is_insert (calls (snd (admin_route create_property e req w)))
         = filter is_insert (calls w)"
proof (intro impI, elim conjE)
  assume k: "k \<in> set required_fields" and none: "map_of (body req) k = None"
  from none have falsy: "\<not> truthy (get (body req) k)" by (simp add: get_def)
  have h: "create_property e v req w1
       = (respond 400 [(''message'', JStr ''Missing required fields'')], w1)" for v w1
    using k falsy by (rule create_property_rejects)
  obtain g w1 where g: "auth_gate e req w = (g, w1)" by (cases "auth_gate e req w")
  from auth_gate_frame [OF g]
  have fr: "tables w1 = tables w" "filter is_insert (calls w1) = filter is_insert (calls w)"
    by (auto simp: same_store_def intro: filter_is_insert_write)
  have "snd (admin_route create_property e req w) = w1"
    using g h by (cases g) (simp_all add: admin_route_def)
  with fr h show "create_property e u req w
       = (respond 400 [(''message'', JStr ''Missing required fields'')], w)
     \<and> (\<forall>v w1. auth_gate e req w = (Inr v, w1) \<longrightarrow>
          admin_route create_property e req w
            = (respond 400 [(''message'', JStr ''Missing required fields'')], w1))
     \<and> tables (snd (admin_route create_property e req w)) = tables w
     \<and> filter is_insert (calls (snd (admin_route create_property e req w)))
         = filter is_insert (calls w)"
    by (simp add: admin_route_def)
qed

lemma demo_gate_admin:
  "auth_gate demo_env (demo_request (Some ''Bearer tokA'') i b fs) demo_world
     = (Inr demo_admin,
        issue (DbSelect ''admin_users'' ''admin-1'') (issue (AuthGetUser ''tokA'') demo_world))"
  by (simp add: auth_gate_def verifySupabaseUser_def requireAdmin_def bearer_token_def
      demo_request_def auth_getUser_def db_select_single_def demo_env_def demo_world_def
      demo_admin_def Let_def get_def issue_simps)

theorem create_property_missing_field_witness:
  "admin_route create_property demo_env
      (demo_request (Some ''Bearer tokA'') [] (butlast demo_listing) []) demo_world
     = (respond 400 [(''message'', JStr ''Missing required fields'')],
        issue (DbSelect ''admin_users'' ''admin-1'') (issue (AuthGetUser ''tokA'') demo_world))"
proof -
  have hyp: "''location'' \<in> set required_fields
        \<and> map_of (body (demo_request (Some ''Bearer tokA'') [] (butlast demo_listing) []))
            ''location'' = None"
    by (simp add: required_fields_def demo_request_def demo_listing_def)
  note r = create_property_missing_field [of "''location''" "demo_request (Some ''Bearer tokA'') [] (butlast demo_listing) []"
        demo_env demo_admin demo_world, THEN mp, OF hyp]
  from r [THEN conjunct2, THEN conjunct1, rule_format, OF demo_gate_admin]
  show ?thesis .
qed

text \<open>
  C9. The required-field test is a truthiness test: the create handler answers 400
  \<open>Missing required fields\<close> (and leaves the world as it was) exactly when one of the
  seven fields is falsy, so a price or an area of 0 and an empty name are rejected like an
  absent field.
\<close>

theorem create_property_truthiness:
  "(\<exists>k \<in> set required_fields. \<not> truthy (get (body req) k))
     = (create_property e u req w
         = (respond 400 [(''message'', JStr ''Missing required fields'')], w))"
proof
  assume "\<exists>k \<in> set required_fields. \<not> truthy (get (body req) k)"
  then show "create_property e u req w
         = (respond 400 [(''message'', JStr ''Missing required fields'')], w)"
    by (auto intro: create_property_rejects)
next
  assume r: "create_property e u req w
         = (respond 400 [(''message'', JStr ''Missing required fields'')], w)"
  show "\<exists>k \<in> set required_fields. \<not> truthy (get (body req) k)"
  proof (rule ccontr)
    assume "\<not> (\<exists>k \<in> set required_fields. \<not> truthy (get (body req) k))"
    then have all: "\<forall>k \<in> set required_fields. truthy (get (body req) k)" by blast
    have "calls (snd (create_property e u req w)) \<noteq> calls w"
      unfolding create_property_accepts [OF all]
      by (auto split: prod.splits reply.splits dest!: db_insert_calls)
    with r show False by simp
  qed
qed

theorem create_property_truthiness_witness:
  "create_property demo_env demo_admin
      (demo_request None [] (AList.update ''price'' (JNum 0) demo_listing) []) demo_world
     = (respond 400 [(''message'', JStr ''Missing required fields'')], demo_world)
   \<and> create_property demo_env demo_admin
      (demo_request None [] (AList.update ''name'' (JStr []) demo_listing) []) demo_world
     = (respond 400 [(''message'', JStr ''Missing required fields'')], demo_world)
   \<and> create_property demo_env demo_admin (demo_request None [] demo_listing []) demo_world
     \<noteq> (respond 400 [(''message'', JStr ''Missing required fields'')], demo_world)"
proof -
  have a: "\<exists>k \<in> set required_fields. \<not> truthy (get (body
      (demo_request None [] (AList.update ''price'' (JNum 0) demo_listing) [])) k)"
    by (rule bexI [of _ "''price''"])
      (simp_all add: required_fields_def demo_request_def demo_listing_def get_def)
  have b: "\<exists>k \<in> set required_fields. \<not> truthy (get (body
      (demo_request None [] (AList.update ''name'' (JStr []) demo_listing) [])) k)"
    by (rule bexI [of _ "''name''"])
      (simp_all add: required_fields_def demo_request_def demo_listing_def get_def)
  have c: "\<not> (\<exists>k \<in> set required_fields. \<not> truthy (get (body
      (demo_request None [] demo_listing [])) k))"
    by (simp add: required_fields_def demo_request_def demo_listing_def get_def)
  note r1 = create_property_truthiness [of "demo_request None [] (AList.update ''price'' (JNum 0) demo_listing) []"
        demo_env demo_admin demo_world, THEN iffD1, OF a]
  note r2 = create_property_truthiness [of "demo_request None [] (AList.update ''name'' (JStr []) demo_listing) []"
        demo_env demo_admin demo_world, THEN iffD1, OF b]
  have r3: "create_property demo_env demo_admin (demo_request None [] demo_listing [])
       demo_world \<noteq> (respond 400 [(''message'', JStr ''Missing required fields'')], demo_world)"
    using c create_property_truthiness [of "demo_request None [] demo_listing []" demo_env demo_admin demo_world]
    by blast
  from r1 r2 r3 show ?thesis by (intro conjI)
qed

section \<open>Updating a property\<close>

lemma db_update_result:
  "db_update e t k p w = (r, w') \<Longrightarrow>
     (case r of
        Data d \<Rightarrow> (\<exists>row. tables w t k = Some row \<and> d = AList.merge row (serialise p)
                      \<and> tables w' = (tables w)(t := (tables w t)(k \<mapsto> d)))
      | _ \<Rightarrow> tables w' = tables w)
     \<and> sessions w' = sessions w \<and> objects w' = objects w \<and> outbox w' = outbox w
     \<and> calls w' = calls w @ [DbUpdate t k (serialise p)]"
  by (auto simp: db_update_def Let_def issue_simps split: fault.splits option.splits)

lemma db_select_single_result:
  "db_select_single f t k w = (r, w') \<Longrightarrow>
     w' = issue (DbSelect t k) w
     \<and> (case r of Data d \<Rightarrow> tables w t k = Some d | _ \<Rightarrow> True)"
  by (auto simp: db_select_single_def Let_def PGRST116_def split: fault.splits option.splits)

lemma db_select_single_absent:
  "f = NoFault \<Longrightarrow> tables w t k = None \<Longrightarrow>
     db_select_single f t k w = (Err PGRST116, issue (DbSelect t k) w)"
  by (simp add: db_select_single_def Let_def)

lemma db_select_single_present:
  "f = NoFault \<Longrightarrow> tables w t k = Some d \<Longrightarrow>
     db_select_single f t k w = (Data d, issue (DbSelect t k) w)"
  by (simp add: db_select_single_def Let_def)

lemma auth_gate_refusal:
  "auth_gate e req w = (Inl r, w1) \<Longrightarrow> status r \<in> {401, 403, 500}"
  by (auto simp: auth_gate_def verifySupabaseUser_def requireAdmin_def respond_def Let_def
      split: option.splits prod.splits sum.splits reply.splits if_splits)

lemma admin_route_cases:
  assumes "admin_route h e req w = (r, w')"
  obtains (refused) "auth_gate e req w = (Inl r, w')" "same_store w w'" "status r \<in> {401, 403, 500}"
  | (passed) u w1 where "auth_gate e req w = (Inr u, w1)" "same_store w w1" "h e u req w1 = (r, w')"
proof -
  obtain g w1 where g: "auth_gate e req w = (g, w1)" by (cases "auth_gate e req w")
  note fr = auth_gate_frame [OF g]
  show thesis
  proof (cases g)
    case (Inl r0)
    with g assms have "r0 = r" "w1 = w'" by (simp_all add: admin_route_def)
    with g Inl fr auth_gate_refusal [of e req w r w'] show thesis by (intro refused) simp_all
  next
    case (Inr u)
    with g assms have "h e u req w1 = (r, w')" by (simp add: admin_route_def)
    with g Inr fr show thesis by (intro passed [of u w1]) simp_all
  qed
qed

lemma update_property_result:
  assumes row: "tables w ''properties'' (param_id req) = Some row"
    and res: "update_property e u req w = (r, w')"
  shows "(if status r = 200
          then tables w' = (tables w)(''properties'' :=
                  (tables w ''properties'')(param_id req \<mapsto> AList.merge row (serialise (body req))))
          else tables w' = tables w)
         \<and> sessions w' = sessions w \<and> objects w' = objects w \<and> outbox w' = outbox w"
proof -
  obtain s w1 where s: "db_select_single (select_fault e) ''properties'' (param_id req) w = (s, w1)"
    by (cases "db_select_single (select_fault e) ''properties'' (param_id req) w")
  note sr = db_select_single_result [OF s]
  show ?thesis
  proof (cases s)
    case (Data d)
    with sr row have d: "d = row" by simp
    obtain x w2 where x: "db_update e ''properties'' (param_id req) (body req) w1 = (x, w2)"
      by (cases "db_update e ''properties'' (param_id req) (body req) w1")
    note ur = db_update_result [OF x]
    from res s Data x show ?thesis
      using ur sr row
      by (cases x) (auto simp: update_property_def Let_def respond_def issue_simps)
  next
    case (Err er)
    with res s sr show ?thesis
      by (auto simp: update_property_def Let_def respond_def issue_simps split: if_splits)
  next
    case (Thrown m)
    with res s sr show ?thesis
      by (auto simp: update_property_def Let_def respond_def issue_simps)
  qed
qed

lemma serialise_keys: "map_of (serialise p) k = Some v \<Longrightarrow> k \<in> fst ` set p"
  by (auto simp: serialise_def dest!: map_of_SomeD intro: rev_image_eqI)

lemma merge_frame:
  "k \<notin> fst ` set p \<Longrightarrow> map_of (AList.merge row (serialise p)) k = map_of row k"
proof -
  assume "k \<notin> fst ` set p"
  then have "map_of (serialise p) k = None"
    using serialise_keys [of p k] by (cases "map_of (serialise p) k") auto
  then show ?thesis by (simp add: AList.merge_conv' map_add_def)
qed

text \<open>
  C8. An update request that passes the gate for an id without a row gets 404, and the
  world differs from the one before only by reads in the call log (nothing is written).
  When the row exists, an update that answers 200 leaves in its place the old row
  overwritten by the entries of the body: every column the body does not name keeps its
  value, and no other row or table changes; an update that answers anything else leaves
  all tables as they were.
\<close>

theorem update_property_partial:
  "(auth_gate e req w = (Inr u, w1) \<and> select_fault e = NoFault
      \<and> tables w ''properties'' (param_id req) = None
     \<longrightarrow> admin_route update_property e req w
           = (respond 404 [(''message'', JStr ''Property not found'')],
              issue (DbSelect ''properties'' (param_id req)) w1)
         \<and> same_store w (issue (DbSelect ''properties'' (param_id req)) w1))
   \<and> (tables w ''properties'' (param_id req) = Some row
       \<and> admin_route update_property e req w = (r, w')
     \<longrightarrow> (if status r = 200
          then (\<exists>row'. tables w' = (tables w)(''properties'' :=
                          (tables w ''properties'')(param_id req \<mapsto> row'))
                 \<and> map_of row' = map_of row ++ map_of (serialise (body req))
                 \<and> (\<forall>k. k \<notin> fst ` set (body req) \<longrightarrow> map_of row' k = map_of row k))
          else tables w' = tables w))"
  (is "(?A \<longrightarrow> ?B) \<and> (?C \<longrightarrow> ?D)")
proof (rule conjI)
  show "?A \<longrightarrow> ?B"
  proof
    assume a: ?A
    then have g: "auth_gate e req w = (Inr u, w1)" and f: "select_fault e = NoFault"
      and none: "tables w ''properties'' (param_id req) = None" by simp_all
    from auth_gate_frame [OF g] have fr: "same_store w w1" .
    then have "tables w1 ''properties'' (param_id req) = None"
      using none by (simp add: same_store_def)
    from db_select_single_absent [OF f this]
    have "update_property e u req w1
         = (respond 404 [(''message'', JStr ''Property not found'')],
            issue (DbSelect ''properties'' (param_id req)) w1)"
      by (simp add: update_property_def PGRST116_def)
    with g fr show ?B
      by (simp add: admin_route_def same_store_select)
  qed
  show "?C \<longrightarrow> ?D"
  proof
    assume c: ?C
    then have row: "tables w ''properties'' (param_id req) = Some row"
      and res: "admin_route update_property e req w = (r, w')" by simp_all
    let ?row' = "AList.merge row (serialise (body req))"
    have m: "map_of ?row' = map_of row ++ map_of (serialise (body req))
             \<and> (\<forall>k. k \<notin> fst ` set (body req) \<longrightarrow> map_of ?row' k = map_of row k)"
      using merge_frame [of _ "body req" row] by (simp add: AList.merge_conv')
    from res show ?D
    proof (cases rule: admin_route_cases)
      case refused
      then show ?thesis by (auto simp: same_store_def)
    next
      case (passed v w1)
      from passed(2) row have row1: "tables w1 ''properties'' (param_id req) = Some row"
        by (simp add: same_store_def)
      from passed(2) have t: "tables w1 = tables w" by (simp add: same_store_def)
      from update_property_result [OF row1 passed(3)] t m show ?thesis
        by (cases "status r = 200") (simp_all, blast)
    qed
  qed
qed


lemma demo_property_1:
  "tables demo_world ''properties'' ''1''
     = Some [(''id'', JStr ''1''), (''name'', JStr ''Villa''), (''owner'', JStr ''Ana''),
             (''price'', JNum 100), (''area'', JNum 80)]"
  by (simp add: demo_world_def)

theorem update_property_partial_witness:
  "admin_route update_property demo_env
      (demo_request (Some ''Bearer tokA'') ''9'' [(''price'', JNum 120)] []) demo_world
     = (respond 404 [(''message'', JStr ''Property not found'')],
        issue (DbSelect ''properties'' ''9'')
          (issue (DbSelect ''admin_users'' ''admin-1'') (issue (AuthGetUser ''tokA'') demo_world)))
   \<and> (\<exists>row'. tables (snd (admin_route update_property demo_env
            (demo_request (Some ''Bearer tokA'') ''1'' [(''price'', JNum 120)] []) demo_world))
          = (tables demo_world)(''properties'' := (tables demo_world ''properties'')(''1'' \<mapsto> row'))
        \<and> map_of row' ''price'' = Some (JNum 120)
        \<and> map_of row' ''name'' = Some (JStr ''Villa''))"
proof -
  let ?req9 = "demo_request (Some ''Bearer tokA'') ''9'' [(''price'', JNum 120)] []"
  let ?req1 = "demo_request (Some ''Bearer tokA'') ''1'' [(''price'', JNum 120)] []"
  let ?row = "[(''id'', JStr ''1''), (''name'', JStr ''Villa''), (''owner'', JStr ''Ana''),
             (''price'', JNum 100), (''area'', JNum 80)]"
  have a: "auth_gate demo_env ?req9 demo_world
       = (Inr demo_admin,
          issue (DbSelect ''admin_users'' ''admin-1'') (issue (AuthGetUser ''tokA'') demo_world))
     \<and> select_fault demo_env = NoFault
     \<and> tables demo_world ''properties'' (param_id ?req9) = None"
    by (simp add: demo_gate_admin) (simp add: demo_env_def demo_world_def demo_request_def)
  note r1 = update_property_partial [of demo_env ?req9 demo_world demo_admin _ , THEN conjunct1, THEN mp, OF a,
      THEN conjunct1]
  obtain r w' where res: "admin_route update_property demo_env ?req1 demo_world = (r, w')"
    by (cases "admin_route update_property demo_env ?req1 demo_world")
  have st: "status (fst (admin_route update_property demo_env ?req1 demo_world)) = 200"
    unfolding admin_route_def demo_gate_admin
    by (simp add: update_property_def db_select_single_def db_update_def Let_def issue_simps
        respond_def demo_env_def demo_request_def demo_world_def)
  have c: "tables demo_world ''properties'' (param_id ?req1) = Some ?row
     \<and> admin_route update_property demo_env ?req1 demo_world = (r, w')"
    using res by (simp add: demo_request_def demo_property_1)
  from update_property_partial [of demo_env ?req1 demo_world _ _ ?row r w', THEN conjunct2, THEN mp, OF c] st res
  obtain row' where "tables w' = (tables demo_world)(''properties'' :=
        (tables demo_world ''properties'')(param_id ?req1 \<mapsto> row'))"
    and m: "map_of row' = map_of ?row ++ map_of (serialise (body ?req1))"
    by auto
  with res have "tables (snd (admin_route update_property demo_env ?req1 demo_world))
          = (tables demo_world)(''properties'' := (tables demo_world ''properties'')(''1'' \<mapsto> row'))
        \<and> map_of row' ''price'' = Some (JNum 120)
        \<and> map_of row' ''name'' = Some (JStr ''Villa'')"
    by (simp add: demo_request_def serialise_def)
  with r1 show ?thesis by (simp add: demo_request_def) blast
qed

section \<open>The images field at creation\<close>

lemma db_insert_result:
  "db_insert e t p w = (r, w') \<Longrightarrow>
     (case r of
        Data d \<Rightarrow> d = AList.update ''id'' (JStr (new_id e)) (serialise p)
                  \<and> tables w t (new_id e) = None
                  \<and> tables w' = (tables w)(t := (tables w t)(new_id e \<mapsto> d))
      | _ \<Rightarrow> tables w' = tables w)
     \<and> sessions w' = sessions w \<and> objects w' = objects w \<and> outbox w' = outbox w
     \<and> calls w' = calls w @ [DbInsert t (serialise p)]"
  by (auto simp: db_insert_def Let_def issue_simps split: fault.splits option.splits)

lemma serialise_absent: "k \<notin> fst ` set p \<Longrightarrow> map_of (serialise p) k = None"
  using serialise_keys [of p k] by (cases "map_of (serialise p) k") auto

lemma create_property_result:
  assumes "create_property e u req w = (r, w')"
  shows "(w' = w \<and> status r = 400)
       \<or> (calls w' = calls w @ [DbInsert ''properties'' (serialise (property_payload u (body req)))]
          \<and> (if status r = 201
              then tables w ''properties'' (new_id e) = None
                 \<and> tables w' = (tables w)(''properties'' := (tables w ''properties'')
                      (new_id e \<mapsto> AList.update ''id'' (JStr (new_id e))
                                      (serialise (property_payload u (body req)))))
                 \<and> json r = JObj (AList.update ''id'' (JStr (new_id e))
                                      (serialise (property_payload u (body req))))
              else tables w' = tables w))"
proof (cases "\<forall>k \<in> set required_fields. truthy (get (body req) k)")
  case False
  then obtain k where "k \<in> set required_fields" "\<not> truthy (get (body req) k)" by blast
  from create_property_rejects [OF this, of e u w] assms show ?thesis
    by (auto simp: respond_def)
next
  case True
  obtain x w2 where x: "db_insert e ''properties'' (property_payload u (body req)) w = (x, w2)"
    by (cases "db_insert e ''properties'' (property_payload u (body req)) w")
  note ir = db_insert_result [OF x]
  from assms x ir show ?thesis
    unfolding create_property_accepts [OF True] property_payload_def [symmetric]
    by (cases x) (auto simp: respond_def)
qed

lemma payload_no_images:
  "map_of (AList.update ''id'' v (serialise (property_payload u b))) ''images'' = None"
  "map_of (serialise (property_payload u b)) ''images'' = None"
  by (simp_all add: AList.update_conv' serialise_absent property_payload_def)

lemma create_property_body_cong:
  assumes "\<forall>k. k \<noteq> ''images'' \<longrightarrow> map_of b' k = map_of b k"
  shows "create_property e u (req\<lparr>body := b'\<rparr>) w = create_property e u (req\<lparr>body := b\<rparr>) w"
proof -
  have g: "get b' k = get b k" if "k \<noteq> ''images''" for k
    using assms that by (simp add: get_def)
  show ?thesis by (simp add: create_property_def Let_def g)
qed

lemma serialise_defined:
  "map_of p k = Some v \<Longrightarrow> v \<noteq> JUndefined \<Longrightarrow> map_of (serialise p) k = Some v"
  by (induction p) (auto simp: serialise_def)

text \<open>
  C10 (amended). The create handler never reads \<open>images\<close>: two bodies that agree on
  every other key give the same result; the insert it issues carries no \<open>images\<close>
  entry, and the row of a successful creation has none. After creation the sequence can be
  set by the attach endpoint and also by an update: a successful update whose body carries
  \<open>images\<close> stores that value in the row.
\<close>

theorem create_property_ignores_images:
  "((\<forall>k. k \<noteq> ''images'' \<longrightarrow> map_of b' k = map_of b k)
      \<longrightarrow> create_property e u (req\<lparr>body := b'\<rparr>) w = create_property e u (req\<lparr>body := b\<rparr>) w)
   \<and> (create_property e u req w = (r, w')
      \<longrightarrow> w' = w \<or> (\<exists>p. calls w' = calls w @ [DbInsert ''properties'' p]
                       \<and> map_of p ''images'' = None))
   \<and> (create_property e u req w = (r, w') \<and> status r = 201
      \<longrightarrow> (\<exists>row. tables w' ''properties'' (new_id e) = Some row \<and> json r = JObj row
                 \<and> map_of row ''images'' = None))
   \<and> (tables w ''properties'' (param_id req) = Some row0
       \<and> update_property e u req w = (r, w') \<and> status r = 200
       \<and> map_of (body req) ''images'' = Some v \<and> v \<noteq> JUndefined
      \<longrightarrow> (\<exists>row'. tables w' ''properties'' (param_id req) = Some row'
                  \<and> map_of row' ''images'' = Some v))"
  (is "(?A1 \<longrightarrow> ?B1) \<and> (?A2 \<longrightarrow> ?B2) \<and> (?A3 \<longrightarrow> ?B3) \<and> (?A4 \<longrightarrow> ?B4)")
proof (intro conjI)
  show "?A1 \<longrightarrow> ?B1" by (simp add: create_property_body_cong)
  show "?A2 \<longrightarrow> ?B2"
  proof
    assume ?A2
    from create_property_result [OF this] show ?B2
      using payload_no_images(2) [of u "body req"] by blast
  qed
  show "?A3 \<longrightarrow> ?B3"
  proof
    assume a: ?A3
    then have res: "create_property e u req w = (r, w')" and st: "status r = 201" by simp_all
    from create_property_result [OF res] st show ?B3
      by (auto simp: payload_no_images)
  qed
  show "?A4 \<longrightarrow> ?B4"
  proof
    assume a: ?A4
    then have row: "tables w ''properties'' (param_id req) = Some row0"
      and res: "update_property e u req w = (r, w')" and st: "status r = 200"
      and v: "map_of (body req) ''images'' = Some v" "v \<noteq> JUndefined" by simp_all
    have "map_of (serialise (body req)) ''images'' = Some v"
      using v by (rule serialise_defined)
    then have "map_of (AList.merge row0 (serialise (body req))) ''images'' = Some v"
      by (simp add: AList.merge_conv')
    with update_property_result [OF row res] st show ?B4 by simp
  qed
qed


theorem create_property_ignores_images_witness:
  "create_property demo_env demo_admin
       (demo_request None [] ((''images'', demo_images) # demo_listing) []) demo_world
     = create_property demo_env demo_admin (demo_request None [] demo_listing []) demo_world
   \<and> (\<exists>p. calls (snd (create_property demo_env demo_admin
                 (demo_request None [] ((''images'', demo_images) # demo_listing) []) demo_world))
            = calls demo_world @ [DbInsert ''properties'' p]
          \<and> map_of p ''images'' = None)
   \<and> (\<exists>row. tables (snd (create_property demo_env demo_admin
                 (demo_request None [] ((''images'', demo_images) # demo_listing) []) demo_world))
              ''properties'' ''2'' = Some row
            \<and> map_of row ''images'' = None)
   \<and> (\<exists>row'. tables (snd (update_property demo_env demo_admin
                 (demo_request None ''1'' [(''images'', demo_images)] []) demo_world))
              ''properties'' ''1'' = Some row'
            \<and> map_of row' ''images'' = Some demo_images)"
proof -
  let ?reqI = "demo_request None [] ((''images'', demo_images) # demo_listing) []"
  let ?reqU = "demo_request None ''1'' [(''images'', demo_images)] []"
  have a1: "\<forall>k. k \<noteq> ''images'' \<longrightarrow>
      map_of ((''images'', demo_images) # demo_listing) k = map_of demo_listing k"
    by simp
  have c1: "create_property demo_env demo_admin ?reqI demo_world
     = create_property demo_env demo_admin (demo_request None [] demo_listing []) demo_world"
    using create_property_ignores_images [of "(''images'', demo_images) # demo_listing" demo_listing demo_env demo_admin
        "demo_request None [] [] []" demo_world, THEN conjunct1, THEN mp, OF a1]
    by (simp add: demo_request_def)
  obtain r w' where res: "create_property demo_env demo_admin ?reqI demo_world = (r, w')"
    by (cases "create_property demo_env demo_admin ?reqI demo_world")
  have st: "status (fst (create_property demo_env demo_admin ?reqI demo_world)) = 201
     \<and> calls (snd (create_property demo_env demo_admin ?reqI demo_world)) \<noteq> calls demo_world"
    by (simp add: create_property_def db_insert_def Let_def get_def demo_request_def
        demo_listing_def demo_images_def demo_env_def demo_world_def issue_simps)
  with res have st': "status r = 201" "w' \<noteq> demo_world" by auto
  from create_property_ignores_images [of _ _ demo_env demo_admin ?reqI demo_world r w', THEN conjunct2, THEN conjunct1,
      THEN mp, OF res] st'(2) res
  have c2: "\<exists>p. calls (snd (create_property demo_env demo_admin ?reqI demo_world))
            = calls demo_world @ [DbInsert ''properties'' p] \<and> map_of p ''images'' = None"
    by simp
  from create_property_ignores_images [of _ _ demo_env demo_admin ?reqI demo_world r w', THEN conjunct2, THEN conjunct2,
      THEN conjunct1, THEN mp, OF conjI [OF res st'(1)]] res
  have c3: "\<exists>row. tables (snd (create_property demo_env demo_admin ?reqI demo_world))
              ''properties'' ''2'' = Some row \<and> map_of row ''images'' = None"
    by (auto simp: demo_env_def)
  obtain r2 w2 where res2: "update_property demo_env demo_admin ?reqU demo_world = (r2, w2)"
    by (cases "update_property demo_env demo_admin ?reqU demo_world")
  have "status (fst (update_property demo_env demo_admin ?reqU demo_world)) = 200"
    by (simp add: update_property_def db_select_single_def db_update_def Let_def issue_simps
        respond_def demo_env_def demo_request_def demo_world_def)
  with res2 have st2: "status r2 = 200" by simp
  have a4: "tables demo_world ''properties'' (param_id ?reqU)
        = Some [(''id'', JStr ''1''), (''name'', JStr ''Villa''), (''owner'', JStr ''Ana''),
             (''price'', JNum 100), (''area'', JNum 80)]
       \<and> update_property demo_env demo_admin ?reqU demo_world = (r2, w2) \<and> status r2 = 200
       \<and> map_of (body ?reqU) ''images'' = Some demo_images \<and> demo_images \<noteq> JUndefined"
    using res2 st2 by (simp add: demo_request_def demo_property_1 demo_images_def)
  from create_property_ignores_images [of _ _ demo_env demo_admin ?reqU demo_world r2 w2 _ demo_images, THEN conjunct2,
      THEN conjunct2, THEN conjunct2, THEN mp, OF a4] res2
  have c4: "\<exists>row'. tables (snd (update_property demo_env demo_admin ?reqU demo_world))
              ''properties'' ''1'' = Some row' \<and> map_of row' ''images'' = Some demo_images"
    by (simp add: demo_request_def)
  from c1 c2 c3 c4 show ?thesis by (intro conjI)
qed

text \<open>
  The claim as first stated says that only the attach endpoint can populate the sequence.
  On the sample world an update request with an \<open>images\<close> entry populates it, and no
  call goes to the object store.
\<close>

theorem images_only_by_attach_counterexample:
  "map_of (the (tables demo_world ''properties'' ''1'')) ''images'' = None
   \<and> status (fst (admin_route update_property demo_env
        (demo_request (Some ''Bearer tokA'') ''1'' [(''images'', demo_images)] []) demo_world))
      = 200
   \<and> map_of (the (tables (snd (admin_route update_property demo_env
        (demo_request (Some ''Bearer tokA'') ''1'' [(''images'', demo_images)] []) demo_world))
        ''properties'' ''1'')) ''images'' = Some demo_images
   \<and> calls (snd (admin_route update_property demo_env
        (demo_request (Some ''Bearer tokA'') ''1'' [(''images'', demo_images)] []) demo_world))
      = [AuthGetUser ''tokA'', DbSelect ''admin_users'' ''admin-1'',
         DbSelect ''properties'' ''1'', DbUpdate ''properties'' ''1'' [(''images'', demo_images)]]"
  unfolding admin_route_def demo_gate_admin
  by (simp add: update_property_def db_select_single_def db_update_def Let_def issue_simps
      respond_def demo_env_def demo_request_def demo_world_def demo_images_def serialise_def)

section \<open>The object-storage adapter: key and upload\<close>

lemma file_ext_spec: "file_ext e f m = spec_extension e f m"
  by (simp add: file_ext_def spec_extension_def mime_derived_def name_extension_def Let_def
      split: option.splits)

lemma upload_key_spec:
  "filter_join [sub, uuidv4 e n @ ''.'' @ file_ext e f m] = spec_key e n sub f m"
  by (simp add: filter_join_def spec_key_def file_ext_spec)

lemma storage_upload_result:
  "storage_upload f b key buf ct ups w = (r, w') \<Longrightarrow>
     calls w' = calls w @ [StorageUpload b key ct ups]
     \<and> sessions w' = sessions w \<and> tables w' = tables w \<and> outbox w' = outbox w
     \<and> (case r of
          Data d \<Rightarrow> f = NoFault \<and> (ups \<or> objects w b key = None)
                    \<and> objects w' = (objects w)(b := (objects w b)(key \<mapsto> buf))
        | _ \<Rightarrow> objects w' = objects w \<and> \<not> (f = NoFault \<and> objects w b key = None))"
  by (auto simp: storage_upload_def Let_def issue_simps split: fault.splits if_splits)

lemma uploadToBucket_result:
  assumes "uploadToBucket e n bucket buf f m sub w = (r, w')"
  shows "calls w' = calls w @ [StorageUpload bucket (spec_key e n sub f m) m False]
     \<and> sessions w' = sessions w \<and> tables w' = tables w \<and> outbox w' = outbox w
     \<and> (case r of
          Inr (k, url) \<Rightarrow> k = spec_key e n sub f m
               \<and> url = getPublicUrl e bucket (spec_key e n sub f m)
               \<and> upload_fault e n = NoFault
               \<and> objects w bucket (spec_key e n sub f m) = None
               \<and> objects w' = (objects w)(bucket :=
                      (objects w bucket)(spec_key e n sub f m \<mapsto> buf))
        | Inl msg \<Rightarrow> objects w' = objects w
               \<and> \<not> (upload_fault e n = NoFault
                    \<and> objects w bucket (spec_key e n sub f m) = None))"
proof -
  obtain x w1 where x: "storage_upload (upload_fault e n) bucket (spec_key e n sub f m) buf m
      False w = (x, w1)"
    by (cases "storage_upload (upload_fault e n) bucket (spec_key e n sub f m) buf m False w")
  note sr = storage_upload_result [OF x]
  have u: "uploadToBucket e n bucket buf f m sub w
      = (case storage_upload (upload_fault e n) bucket (spec_key e n sub f m) buf m False w of
           (Thrown m, w') \<Rightarrow> (Inl m, w')
         | (Err upErr, w') \<Rightarrow> (Inl (message upErr), w')
         | (Data _, w') \<Rightarrow> (Inr (spec_key e n sub f m,
                                  getPublicUrl e bucket (spec_key e n sub f m)), w'))"
    unfolding uploadToBucket_def Let_def upload_key_spec ..
  from assms x sr show ?thesis
    unfolding u by (cases x) auto
qed

text \<open>
  C6. An upload of a buffer with original filename \<open>f\<close> and MIME type \<open>m\<close> issues
  exactly one call to the store, an upload without upsert under the key of the
  specification (\<open>spec_key\<close>, built on the identifier the generator returned for this
  call). It succeeds exactly when the store has no fault and holds no object under that
  key; then the key and its public URL are returned and the buffer is stored under the
  key, which was free. Otherwise the objects are unchanged: nothing is overwritten.
\<close>

theorem uploadToBucket_contract:
  "uploadToBucket e n bucket buf f m sub w = (r, w') \<longrightarrow>
     calls w' = calls w @ [StorageUpload bucket (spec_key e n sub f m) m False]
     \<and> (case r of
          Inr (k, url) \<Rightarrow> k = spec_key e n sub f m
               \<and> url = getPublicUrl e bucket (spec_key e n sub f m)
               \<and> objects w bucket (spec_key e n sub f m) = None
               \<and> objects w' = (objects w)(bucket :=
                      (objects w bucket)(spec_key e n sub f m \<mapsto> buf))
        | Inl msg \<Rightarrow> objects w' = objects w)
     \<and> ((\<exists>k url. r = Inr (k, url))
          = (upload_fault e n = NoFault \<and> objects w bucket (spec_key e n sub f m) = None))"
proof
  assume a: "uploadToBucket e n bucket buf f m sub w = (r, w')"
  from uploadToBucket_result [OF a] show "calls w' = calls w @ [StorageUpload bucket (spec_key e n sub f m) m False]
     \<and> (case r of
          Inr (k, url) \<Rightarrow> k = spec_key e n sub f m
               \<and> url = getPublicUrl e bucket (spec_key e n sub f m)
               \<and> objects w bucket (spec_key e n sub f m) = None
               \<and> objects w' = (objects w)(bucket :=
                      (objects w bucket)(spec_key e n sub f m \<mapsto> buf))
        | Inl msg \<Rightarrow> objects w' = objects w)
     \<and> ((\<exists>k url. r = Inr (k, url))
          = (upload_fault e n = NoFault \<and> objects w bucket (spec_key e n sub f m) = None))"
    by (cases r) auto
qed

theorem uploadToBucket_contract_witness:
  "fst (uploadToBucket demo_env 0 PROPERTY_BUCKET [1, 2, 3] ''plan.jpeg'' ''image/png''
          ''properties/1'' demo_world)
     = Inr (''properties/1/aaaa.png'',
            ''https://demo.supabase.co/storage/v1/object/public/property-images/properties/1/aaaa.png'')
   \<and> fst (uploadToBucket demo_env 1 REVIEW_BUCKET [4] ''plan.jpeg'' ''application/x-plan''
          [] demo_world)
     = Inr (''bbbb.jpeg'',
            ''https://demo.supabase.co/storage/v1/object/public/review-images/bbbb.jpeg'')
   \<and> fst (uploadToBucket demo_env 1 REVIEW_BUCKET [] ''README'' ''application/x-plan''
          ''reviews'' demo_world)
     = Inr (''reviews/bbbb.bin'',
            ''https://demo.supabase.co/storage/v1/object/public/review-images/reviews/bbbb.bin'')
   \<and> calls (snd (uploadToBucket demo_env 0 PROPERTY_BUCKET [1, 2, 3] ''plan.jpeg'' ''image/png''
          ''properties/1'' demo_world))
     = [StorageUpload PROPERTY_BUCKET ''properties/1/aaaa.png'' ''image/png'' False]"
proof -
  have k1: "spec_key demo_env 0 ''properties/1'' ''plan.jpeg'' ''image/png''
      = ''properties/1/aaaa.png''"
    and k2: "spec_key demo_env 1 [] ''plan.jpeg'' ''application/x-plan'' = ''bbbb.jpeg''"
    and k3: "spec_key demo_env 1 ''reviews'' ''README'' ''application/x-plan''
      = ''reviews/bbbb.bin''"
    by (simp_all add: spec_key_def spec_extension_def mime_derived_def name_extension_def
        demo_env_def)
  have free: "upload_fault demo_env n = NoFault \<and> objects demo_world b k = None" for n b k
    by (simp add: demo_env_def demo_world_def)
  have url: "getPublicUrl demo_env b k
      = ''https://demo.supabase.co/storage/v1/object/public/'' @ b @ ''/'' @ k" for b k
    by (simp add: getPublicUrl_def demo_env_def)
  have c0: "calls demo_world = []" by (simp add: demo_world_def)
  have ok: "fst (uploadToBucket demo_env n b buf f m sub demo_world)
      = Inr (spec_key demo_env n sub f m, getPublicUrl demo_env b (spec_key demo_env n sub f m))
     \<and> calls (snd (uploadToBucket demo_env n b buf f m sub demo_world))
      = [StorageUpload b (spec_key demo_env n sub f m) m False]" for n b buf f m sub
  proof -
    note t = uploadToBucket_contract [of demo_env n b buf f m sub demo_world, THEN mp, OF surjective_pairing]
    from t free obtain k u where
      r: "fst (uploadToBucket demo_env n b buf f m sub demo_world) = Inr (k, u)" by blast
    with t c0 show ?thesis by simp
  qed
  from ok [of 0 PROPERTY_BUCKET "[1, 2, 3]" "''plan.jpeg''" "''image/png''" "''properties/1''"]
    ok [of 1 REVIEW_BUCKET "[4]" "''plan.jpeg''" "''application/x-plan''" "[]"]
    ok [of 1 REVIEW_BUCKET "[]" "''README''" "''application/x-plan''" "''reviews''"]
  show ?thesis
    unfolding k1 k2 k3 url by (simp add: PROPERTY_BUCKET_def REVIEW_BUCKET_def)
qed

section \<open>The contact form\<close>

lemma sendMail_result:
  "sendMail f m w =
     (case f of
        NoFault \<Rightarrow> (Inr (), w\<lparr>outbox := outbox w @ [m], calls := calls w @ [SendMail m]\<rparr>)
      | _ \<Rightarrow> (Inl (fault_message f), w\<lparr>calls := calls w @ [SendMail m]\<rparr>))"
  by (simp add: sendMail_def issue_def Let_def split: fault.splits)

lemma sendContactForm_result:
  "sendContactForm e formData w =
     (case contact_text e formData of
        None \<Rightarrow> (Inl TypeError_message, w)
      | Some t \<Rightarrow>
          if sendMail_fault e 0 \<noteq> NoFault
          then (Inl (fault_message (sendMail_fault e 0)),
                w\<lparr>calls := calls w @ [SendMail (submitter_mail e formData t)]\<rparr>)
          else if sendMail_fault e 1 \<noteq> NoFault
          then (Inl (fault_message (sendMail_fault e 1)),
                w\<lparr>outbox := outbox w @ [submitter_mail e formData t],
                  calls := calls w @ [SendMail (submitter_mail e formData t),
                                      SendMail (operator_mail e t)]\<rparr>)
          else (Inr (),
                w\<lparr>outbox := outbox w @ [submitter_mail e formData t, operator_mail e t],
                  calls := calls w @ [SendMail (submitter_mail e formData t),
                                      SendMail (operator_mail e t)]\<rparr>))"
proof (cases "contact_text e formData")
  case None
  then show ?thesis by (simp add: sendContactForm_def)
next
  case (Some t)
  show ?thesis
    unfolding sendContactForm_def Let_def Some option.case
      submitter_mail_def [symmetric] operator_mail_def [symmetric] sendMail_result
    by (simp split: fault.splits)
qed

text \<open>
  C7 (amended). A submission in which name, phone or email is falsy (absent, empty, 0,
  null) is answered 400 with the world unchanged: no mail is attempted. Otherwise the text
  is formatted; when that throws (one of the five fields is, or holds in an array, an
  object with an own \<open>toString\<close> property) the answer is 500 \<open>Error sending email\<close> and
  no mail is attempted. Otherwise the mail to the submitter's address is attempted first;
  if that send fails the answer is 500 \<open>Error sending email\<close> with the failure's message
  and no second send is attempted; if it succeeds, the mail to the operator inbox, with
  the same text, is attempted, and its failure gives the same 500 answer (the first mail
  is then already delivered); if both succeed the answer is 200 and two mails are
  delivered, in that order.
\<close>

theorem contactform_sends:
  "(\<not> truthy (get (body req) ''name'') \<or> \<not> truthy (get (body req) ''phone'')
      \<or> \<not> truthy (get (body req) ''email'')
     \<longrightarrow> contactform e req w
           = (respond 400 [(''message'', JStr ''Missing required fields'')], w))
   \<and> (truthy (get (body req) ''name'') \<and> truthy (get (body req) ''phone'')
      \<and> truthy (get (body req) ''email'') \<and> contact_text e (body req) = None
     \<longrightarrow> contactform e req w
           = (respond 500 [(''message'', JStr ''Error sending email''),
                           (''error'', JStr TypeError_message)], w))
   \<and> (truthy (get (body req) ''name'') \<and> truthy (get (body req) ''phone'')
      \<and> truthy (get (body req) ''email'') \<and> contact_text e (body req) = Some t
     \<longrightarrow> contactform e req w =
          (if sendMail_fault e 0 \<noteq> NoFault
           then (respond 500 [(''message'', JStr ''Error sending email''),
                              (''error'', JStr (fault_message (sendMail_fault e 0)))],
                 w\<lparr>calls := calls w @ [SendMail (submitter_mail e (body req) t)]\<rparr>)
           else if sendMail_fault e 1 \<noteq> NoFault
           then (respond 500 [(''message'', JStr ''Error sending email''),
                              (''error'', JStr (fault_message (sendMail_fault e 1)))],
                 w\<lparr>outbox := outbox w @ [submitter_mail e (body req) t],
                   calls := calls w @ [SendMail (submitter_mail e (body req) t),
                                       SendMail (operator_mail e t)]\<rparr>)
           else (respond 200 [(''message'', JStr ''Form submitted successfully, email sent.'')],
                 w\<lparr>outbox := outbox w @ [submitter_mail e (body req) t, operator_mail e t],
                   calls := calls w @ [SendMail (submitter_mail e (body req) t),
                                       SendMail (operator_mail e t)]\<rparr>))
        \<and> mail_to (submitter_mail e (body req) t) = get (body req) ''email''
        \<and> mail_to (operator_mail e t) = JStr (sender e)
        \<and> mail_text (operator_mail e t) = mail_text (submitter_mail e (body req) t))"
  by (auto simp: contactform_def Let_def sendContactForm_result submitter_mail_def
      operator_mail_def)

lemma demo_contact_text:
  "contact_text demo_env demo_contact
     = Some ''Name: A\<newline>Phone Number: 123\<newline>Email: a@x.com\<newline>Subject: hi\<newline>Country Code: +1''"
  by (simp add: contact_text_def demo_contact_def get_def trim_def is_space_def)

lemma demo_contact_object_text: "contact_text demo_env demo_contact_object = None"
  by (simp add: contact_text_def demo_contact_object_def get_def)

theorem contactform_sends_witness:
  "contactform demo_env (demo_request None [] (butlast (butlast (butlast demo_contact))) [])
       demo_world
     = (respond 400 [(''message'', JStr ''Missing required fields'')], demo_world)
   \<and> contactform demo_env (demo_request None [] demo_contact_object []) demo_world
     = (respond 500 [(''message'', JStr ''Error sending email''),
                     (''error'', JStr ''Cannot convert object to primitive value'')],
        demo_world)
   \<and> contactform demo_env (demo_request None [] demo_contact []) demo_world
     = (respond 200 [(''message'', JStr ''Form submitted successfully, email sent.'')],
        demo_world\<lparr>outbox :=
            [\<lparr>mail_from = ''office@example.com'', mail_to = JStr ''a@x.com'',
              mail_subject = ''New Contact Form'',
              mail_text = ''Name: A\<newline>Phone Number: 123\<newline>Email: a@x.com\<newline>Subject: hi\<newline>Country Code: +1''\<rparr>,
             \<lparr>mail_from = ''office@example.com'', mail_to = JStr ''office@example.com'',
              mail_subject = ''New Contact Form'',
              mail_text = ''Name: A\<newline>Phone Number: 123\<newline>Email: a@x.com\<newline>Subject: hi\<newline>Country Code: +1''\<rparr>],
          calls :=
            [SendMail \<lparr>mail_from = ''office@example.com'', mail_to = JStr ''a@x.com'',
              mail_subject = ''New Contact Form'',
              mail_text = ''Name: A\<newline>Phone Number: 123\<newline>Email: a@x.com\<newline>Subject: hi\<newline>Country Code: +1''\<rparr>,
             SendMail \<lparr>mail_from = ''office@example.com'',
              mail_to = JStr ''office@example.com'', mail_subject = ''New Contact Form'',
              mail_text = ''Name: A\<newline>Phone Number: 123\<newline>Email: a@x.com\<newline>Subject: hi\<newline>Country Code: +1''\<rparr>]\<rparr>)"
proof -
  let ?short = "demo_request None [] (butlast (butlast (butlast demo_contact))) []"
  let ?object = "demo_request None [] demo_contact_object []"
  let ?full = "demo_request None [] demo_contact []"
  let ?t = "''Name: A\<newline>Phone Number: 123\<newline>Email: a@x.com\<newline>Subject: hi\<newline>Country Code: +1''"
  have a: "\<not> truthy (get (body ?short) ''name'') \<or> \<not> truthy (get (body ?short) ''phone'')
      \<or> \<not> truthy (get (body ?short) ''email'')"
    by (simp add: demo_request_def demo_contact_def get_def)
  have bd: "body ?full = demo_contact" "body ?object = demo_contact_object"
    by (simp_all add: demo_request_def)
  have b: "truthy (get (body ?full) ''name'') \<and> truthy (get (body ?full) ''phone'')
      \<and> truthy (get (body ?full) ''email'') \<and> contact_text demo_env (body ?full) = Some ?t"
    unfolding bd by (simp add: demo_contact_text) (simp add: demo_contact_def get_def)
  have c: "truthy (get (body ?object) ''name'') \<and> truthy (get (body ?object) ''phone'')
      \<and> truthy (get (body ?object) ''email'') \<and> contact_text demo_env (body ?object) = None"
    unfolding bd by (simp add: demo_contact_object_text) (simp add: demo_contact_object_def get_def)
  have f: "sendMail_fault demo_env n = NoFault" for n by (simp add: demo_env_def)
  have w0: "outbox demo_world = []" "calls demo_world = []" by (simp_all add: demo_world_def)
  have s: "sender demo_env = ''office@example.com''"
    by (simp add: sender_def or_string_def demo_env_def)
  have em: "get demo_contact ''email'' = JStr ''a@x.com''"
    by (simp add: demo_contact_def get_def)
  note r1 = contactform_sends [of ?short demo_env demo_world, THEN conjunct1, THEN mp, OF a]
  note r2 = contactform_sends [of ?object demo_env demo_world, THEN conjunct2, THEN conjunct1,
      THEN mp, OF c]
  note r3 = contactform_sends [of ?full demo_env demo_world ?t, THEN conjunct2, THEN conjunct2,
      THEN mp, OF b, THEN conjunct1]
  from r1 r2 r3 show ?thesis
    unfolding bd
    by (simp add: f w0 s em submitter_mail_def operator_mail_def TypeError_message_def)
qed

text \<open>
  The claim as first stated has exactly two mails attempted whenever the three fields are
  present. With the relay down, the spec's own submission leads to one attempt only; a
  submission whose name is present but empty is answered 400 with no attempt; and one
  whose name is an object with an own \<open>toString\<close> is answered 500 with no attempt.
\<close>

theorem contactform_two_attempts_counterexample:
  "truthy (get demo_contact ''name'') \<and> truthy (get demo_contact ''phone'')
   \<and> truthy (get demo_contact ''email'')
   \<and> status (fst (contactform demo_env_mail_down (demo_request None [] demo_contact [])
        demo_world)) = 500
   \<and> length (filter is_mail (calls (snd (contactform demo_env_mail_down
        (demo_request None [] demo_contact []) demo_world)))) = 1
   \<and> map_of (AList.update ''name'' (JStr []) demo_contact) ''name'' = Some (JStr [])
   \<and> contactform demo_env
        (demo_request None [] (AList.update ''name'' (JStr []) demo_contact) []) demo_world
     = (respond 400 [(''message'', JStr ''Missing required fields'')], demo_world)
   \<and> truthy (get demo_contact_object ''name'') \<and> truthy (get demo_contact_object ''phone'')
   \<and> truthy (get demo_contact_object ''email'')
   \<and> contactform demo_env (demo_request None [] demo_contact_object []) demo_world
     = (respond 500 [(''message'', JStr ''Error sending email''),
                     (''error'', JStr ''Cannot convert object to primitive value'')],
        demo_world)"
proof -
  have t: "contact_text demo_env_mail_down demo_contact \<noteq> None"
    by (simp add: contact_text_def demo_contact_def get_def)
  have o: "contact_text demo_env demo_contact_object = None"
    by (rule demo_contact_object_text)
  have b: "body (demo_request None [] x []) = x" for x by (simp add: demo_request_def)
  have 1: "truthy (get demo_contact ''name'') \<and> truthy (get demo_contact ''phone'')
      \<and> truthy (get demo_contact ''email'')
      \<and> map_of (AList.update ''name'' (JStr []) demo_contact) ''name'' = Some (JStr [])
      \<and> \<not> truthy (get (AList.update ''name'' (JStr []) demo_contact) ''name'')
      \<and> truthy (get demo_contact_object ''name'') \<and> truthy (get demo_contact_object ''phone'')
      \<and> truthy (get demo_contact_object ''email'')"
    by (simp add: demo_contact_def demo_contact_object_def get_def)
  have f: "sendMail_fault demo_env_mail_down 0 \<noteq> NoFault"
    by (simp add: demo_env_mail_down_def)
  from t obtain x where x: "contact_text demo_env_mail_down demo_contact = Some x" by blast
  have 2: "status (fst (contactform demo_env_mail_down (demo_request None [] demo_contact [])
        demo_world)) = 500
     \<and> length (filter is_mail (calls (snd (contactform demo_env_mail_down
        (demo_request None [] demo_contact []) demo_world)))) = 1"
    using 1 f
    by (simp add: contactform_def Let_def sendContactForm_result b x respond_def demo_world_def)
  have 3: "contactform demo_env
        (demo_request None [] (AList.update ''name'' (JStr []) demo_contact) []) demo_world
     = (respond 400 [(''message'', JStr ''Missing required fields'')], demo_world)"
    using 1 by (simp add: contactform_def Let_def b)
  have 4: "contactform demo_env (demo_request None [] demo_contact_object []) demo_world
     = (respond 500 [(''message'', JStr ''Error sending email''),
                     (''error'', JStr ''Cannot convert object to primitive value'')],
        demo_world)"
    using 1 by (simp add: contactform_def Let_def b sendContactForm_result o
        TypeError_message_def)
  from 1 2 3 4 show ?thesis by simp
qed

section \<open>Detaching an image\<close>

lemma storage_remove_result:
  "storage_remove e b paths w = (r, w') \<Longrightarrow>
     calls w' = calls w @ [StorageRemove b paths]
     \<and> sessions w' = sessions w \<and> tables w' = tables w \<and> outbox w' = outbox w
     \<and> (case r of
          Data d \<Rightarrow> remove_fault e = NoFault
             \<and> objects w' = (objects w)(b := (\<lambda>k. if k \<in> set paths then None else objects w b k))
        | _ \<Rightarrow> remove_fault e \<noteq> NoFault \<and> objects w' = objects w)"
  by (auto simp: storage_remove_def Let_def issue_simps split: fault.splits)

lemma serialise_images [simp]: "serialise [(''images'', JArr xs)] = [(''images'', JArr xs)]"
  by (simp add: serialise_def)

lemma delete_image_tail:
  assumes res: "delete_image e u req w = (r, w')"
    and url: "get (body req) ''url'' = JStr s"
    and sel: "db_select_single (select_fault e) ''properties'' (param_id req) w = (Data prop, w1)"
    and inc: "array_includes (array_or_empty (get prop ''images'')) (JStr s)"
    and idx: "indexOf s storage_base = Some i"
  shows "(case storage_remove e PROPERTY_BUCKET [drop (i + length storage_base) s] w1 of
            (Thrown m, w2) \<Rightarrow>
              (respond 500 [(''message'', JStr ''Delete failed''), (''error'', JStr m)], w2)
          | (Err delErr, w2) \<Rightarrow>
              (respond 500 [(''message'', JStr ''Failed to delete file''),
                            (''error'', JStr (message delErr))], w2)
          | (Data d, w2) \<Rightarrow>
              (case db_update e ''properties'' (param_id req)
                      [(''images'', JArr (filter (\<lambda>u. \<not> strict_eq u (JStr s))
                          (array_or_empty (get prop ''images''))))] w2 of
                 (Err updErr, w3) \<Rightarrow>
                   (respond 500 [(''message'', JStr ''Failed to update DB''),
                                 (''error'', JStr (message updErr))], w3)
               | (Thrown m, w3) \<Rightarrow>
                   (respond 500 [(''message'', JStr ''Delete failed''), (''error'', JStr m)], w3)
               | (Data updated, w3) \<Rightarrow>
                   (respond 200 [(''message'', JStr ''Removed''),
                                 (''images'', get updated ''images'')], w3))) = (r, w')"
proof -
  have s: "s \<noteq> []" using idx by (cases s) (auto simp: storage_base_def)
  show ?thesis
    using res unfolding delete_image_def Let_def url sel storage_base_def [symmetric]
    by (simp add: inc idx s)
qed


lemma merge_images_get [simp]: "get (AList.merge prop [(''images'', v)]) ''images'' = v"
  by (simp add: get_def AList.update_conv')

lemma delete_image_result:
  assumes res: "delete_image e u req w = (r, w')"
  shows "sessions w' = sessions w \<and> outbox w' = outbox w
     \<and> (if status r = 200
         then remove_fault e = NoFault
            \<and> (\<exists>pr s i. tables w ''properties'' (param_id req) = Some pr
                  \<and> get (body req) ''url'' = JStr s
                  \<and> array_includes (array_or_empty (get pr ''images'')) (JStr s)
                  \<and> indexOf s storage_base = Some i
                  \<and> tables w' = (tables w)(''properties'' :=
                       (tables w ''properties'')(param_id req \<mapsto> detached (JStr s) pr))
                  \<and> objects w' = (objects w)(PROPERTY_BUCKET :=
                       (\<lambda>k. if k \<in> set [drop (i + length storage_base) s] then None
                            else objects w PROPERTY_BUCKET k))
                  \<and> json r = JObj [(''message'', JStr ''Removed''),
                                    (''images'', get (detached (JStr s) pr) ''images'')])
         else tables w' = tables w
            \<and> (remove_fault e \<noteq> NoFault
                 \<longrightarrow> objects w' = objects w
                    \<and> filter is_update (calls w') = filter is_update (calls w)))"
proof (cases "truthy (get (body req) ''url'')")
  case False
  with res show ?thesis by (auto simp: delete_image_def Let_def respond_def)
next
  case True
  obtain x w1 where sel:
    "db_select_single (select_fault e) ''properties'' (param_id req) w = (x, w1)"
    by (cases "db_select_single (select_fault e) ''properties'' (param_id req) w")
  note sr = db_select_single_result [OF sel]
  then have w1: "w1 = issue (DbSelect ''properties'' (param_id req)) w" by simp
  show ?thesis
  proof (cases x)
    case (Err er)
    with res True sel w1 show ?thesis
      by (auto simp: delete_image_def Let_def respond_def issue_simps split: if_splits)
  next
    case (Thrown m)
    with res True sel w1 show ?thesis
      by (auto simp: delete_image_def Let_def respond_def issue_simps split: if_splits)
  next
    case (Data pr)
    with sr have pr: "tables w ''properties'' (param_id req) = Some pr" by simp
    note sel' = sel [unfolded Data]
    show ?thesis
    proof (cases "array_includes (array_or_empty (get pr ''images'')) (get (body req) ''url'')")
      case False
      with res True sel' w1 show ?thesis
        by (auto simp: delete_image_def Let_def respond_def issue_simps split: if_splits)
    next
      case inc: True
      show ?thesis
      proof (cases "\<exists>s. get (body req) ''url'' = JStr s")
        case False
        with res True sel' w1 inc show ?thesis
          by (cases "get (body req) ''url''")
            (auto simp: delete_image_def Let_def respond_def issue_simps)
      next
        case True
        then obtain s where url: "get (body req) ''url'' = JStr s" by blast
        from \<open>truthy (get (body req) ''url'')\<close> url have sne: "s \<noteq> []" by simp
        show ?thesis
        proof (cases "indexOf s storage_base")
          case None
          with res sel' w1 inc url sne show ?thesis
            unfolding delete_image_def Let_def storage_base_def [symmetric]
            by (auto simp: respond_def issue_simps)
        next
          case (Some i)
          note tail = delete_image_tail [OF res url sel' inc [unfolded url] Some]
          obtain y w2 where rm: "storage_remove e PROPERTY_BUCKET
              [drop (i + length storage_base) s] w1 = (y, w2)"
            by (cases "storage_remove e PROPERTY_BUCKET [drop (i + length storage_base) s] w1")
          note rr = storage_remove_result [OF rm]
          show ?thesis
          proof (cases y)
            case (Err er)
            with tail rm rr w1 show ?thesis by (auto simp: respond_def issue_simps)
          next
            case (Thrown m)
            with tail rm rr w1 show ?thesis by (auto simp: respond_def issue_simps)
          next
            case (Data d)
            obtain z w3 where up: "db_update e ''properties'' (param_id req)
                [(''images'', JArr (filter (\<lambda>u. \<not> strict_eq u (JStr s))
                    (array_or_empty (get pr ''images''))))] w2 = (z, w3)"
              by (cases "db_update e ''properties'' (param_id req)
                [(''images'', JArr (filter (\<lambda>u. \<not> strict_eq u (JStr s))
                    (array_or_empty (get pr ''images''))))] w2")
            note ur = db_update_result [OF up]
            from rr Data w1 have f: "remove_fault e = NoFault" "tables w2 = tables w"
              "sessions w2 = sessions w" "outbox w2 = outbox w"
              "objects w2 = (objects w)(PROPERTY_BUCKET :=
                       (\<lambda>k. if k \<in> set [drop (i + length storage_base) s] then None
                            else objects w PROPERTY_BUCKET k))"
              by (simp_all add: issue_simps cong: if_cong)
            show ?thesis
            proof (cases z)
              case (Err er)
              with tail rm Data up ur f show ?thesis by (auto simp: respond_def)
            next
              case (Thrown m)
              with tail rm Data up ur f show ?thesis by (auto simp: respond_def)
            next
              case zd: (Data updated)
              with ur f pr have upd: "updated = detached (JStr s) pr"
                "tables w3 = (tables w)(''properties'' :=
                       (tables w ''properties'')(param_id req \<mapsto> detached (JStr s) pr))"
                by (simp_all add: detached_def)
              from tail rm Data up zd have rw: "r = respond 200 [(''message'', JStr ''Removed''),
                  (''images'', get updated ''images'')]" "w' = w3" by simp_all
              from rw upd ur f pr url inc Some show ?thesis
                by (simp add: respond_def)
            qed
          qed
        qed
      qed
    qed
  qed
qed


lemma filter_is_update_write:
  "filter is_write cs = filter is_write ds \<Longrightarrow> filter is_update cs = filter is_update ds"
proof -
  have "filter is_update xs = filter is_update (filter is_write xs)" for xs
    by (induction xs) (auto elim: is_write.elims)
  then show "filter is_write cs = filter is_write ds \<Longrightarrow> filter is_update cs = filter is_update ds"
    by metis
qed

lemma auth_gate_pass:
  assumes "bearer_token (authorization req) = Some t" "t \<noteq> []" "getUser_fault e = NoFault"
    "sessions w t = Some u" "uid u \<noteq> []" "adminLookup_fault e = NoFault"
    "tables w ''admin_users'' (uid u) = Some a" "truthy (get a ''is_admin'')"
  shows "auth_gate e req w
     = (Inr u, issue (DbSelect ''admin_users'' (uid u)) (issue (AuthGetUser t) w))"
  using assms
  by (simp add: auth_gate_def verifySupabaseUser_def requireAdmin_def auth_getUser_def
      db_select_single_def Let_def issue_simps)

lemma delete_image_not_found:
  assumes "tables w ''properties'' (param_id req) = Some pr" "select_fault e = NoFault"
    "\<not> array_includes (array_or_empty (get pr ''images'')) (get (body req) ''url'')"
  shows "status (fst (delete_image e u req w)) = 400
     \<and> same_store w (snd (delete_image e u req w))"
proof (cases "truthy (get (body req) ''url'')")
  case False
  then show ?thesis by (simp add: delete_image_def Let_def respond_def same_store_refl)
next
  case True
  from db_select_single_present [OF assms(2,1)] True assms(3) show ?thesis
    by (simp add: delete_image_def Let_def respond_def same_store_select same_store_refl)
qed

text \<open>
  C4. Detach on an existing property, past the gate. When the url of the body is not in
  the images of the row (or is absent), the answer is 400 and the world differs only by
  reads: neither the object store nor the row is touched. When the removal from storage
  fails, whatever else holds, the answer is not 200, the tables and the objects are
  unchanged and no update is issued; and when the url is in the row and has the expected
  form, the failing removal is the last call issued and the answer is 500. So the row is
  only ever updated after the object was removed.
\<close>

theorem detach_image_guarded:
  "(tables w ''properties'' (param_id req) = Some pr \<and> select_fault e = NoFault
      \<and> \<not> array_includes (array_or_empty (get pr ''images'')) (get (body req) ''url'')
      \<and> auth_gate e req w = (Inr u, w1)
     \<longrightarrow> status (fst (admin_route delete_image e req w)) = 400
        \<and> same_store w (snd (admin_route delete_image e req w)))
   \<and> (remove_fault e \<noteq> NoFault \<and> admin_route delete_image e req w = (r, w')
     \<longrightarrow> status r \<noteq> 200 \<and> tables w' = tables w \<and> objects w' = objects w
        \<and> filter is_update (calls w') = filter is_update (calls w))
   \<and> (tables w ''properties'' (param_id req) = Some pr \<and> select_fault e = NoFault
      \<and> get (body req) ''url'' = JStr s
      \<and> array_includes (array_or_empty (get pr ''images'')) (JStr s)
      \<and> indexOf s storage_base = Some i \<and> remove_fault e \<noteq> NoFault
      \<and> auth_gate e req w = (Inr u, w1)
     \<longrightarrow> status (fst (admin_route delete_image e req w)) = 500
        \<and> calls (snd (admin_route delete_image e req w))
          = calls w1 @ [DbSelect ''properties'' (param_id req),
                        StorageRemove PROPERTY_BUCKET [drop (i + length storage_base) s]])"
  (is "(?A1 \<longrightarrow> ?B1) \<and> (?A2 \<longrightarrow> ?B2) \<and> (?A3 \<longrightarrow> ?B3)")
proof (intro conjI)
  show "?A1 \<longrightarrow> ?B1"
  proof
    assume a: ?A1
    then have g: "auth_gate e req w = (Inr u, w1)" by simp
    note fr = auth_gate_frame [OF g]
    with a have "tables w1 ''properties'' (param_id req) = Some pr"
      by (simp add: same_store_def)
    from delete_image_not_found [OF this, of e u] a
    have "status (fst (delete_image e u req w1)) = 400
       \<and> same_store w1 (snd (delete_image e u req w1))" by simp
    with g fr show ?B1 by (auto simp: admin_route_def intro: same_store_trans)
  qed
  show "?A2 \<longrightarrow> ?B2"
  proof
    assume a: ?A2
    then have f: "remove_fault e \<noteq> NoFault"
      and res: "admin_route delete_image e req w = (r, w')" by simp_all
    from res show ?B2
    proof (cases rule: admin_route_cases)
      case refused
      then show ?thesis by (auto simp: same_store_def intro: filter_is_update_write)
    next
      case (passed v w1)
      from passed(2) have fr: "tables w1 = tables w" "objects w1 = objects w"
        "filter is_update (calls w1) = filter is_update (calls w)"
        by (auto simp: same_store_def intro: filter_is_update_write)
      from delete_image_result [OF passed(3)] f fr show ?thesis
        by (cases "status r = 200") simp_all
    qed
  qed
  show "?A3 \<longrightarrow> ?B3"
  proof
    assume a: ?A3
    then have g: "auth_gate e req w = (Inr u, w1)" and f: "remove_fault e \<noteq> NoFault"
      and url: "get (body req) ''url'' = JStr s"
      and inc: "array_includes (array_or_empty (get pr ''images'')) (JStr s)"
      and idx: "indexOf s storage_base = Some i"
      and sf: "select_fault e = NoFault" by simp_all
    from auth_gate_frame [OF g] a have "tables w1 ''properties'' (param_id req) = Some pr"
      by (simp add: same_store_def)
    note sel = db_select_single_present [OF sf this]
    obtain r w' where res: "delete_image e u req w1 = (r, w')"
      by (cases "delete_image e u req w1")
    note tail = delete_image_tail [OF res url sel inc idx]
    obtain y w2 where rm: "storage_remove e PROPERTY_BUCKET
        [drop (i + length storage_base) s] (issue (DbSelect ''properties'' (param_id req)) w1)
        = (y, w2)"
      by (cases "storage_remove e PROPERTY_BUCKET [drop (i + length storage_base) s]
        (issue (DbSelect ''properties'' (param_id req)) w1)")
    from storage_remove_result [OF rm] f tail rm
    have "status r = 500 \<and> calls w' = calls w1 @ [DbSelect ''properties'' (param_id req),
                        StorageRemove PROPERTY_BUCKET [drop (i + length storage_base) s]]"
      by (cases y) (auto simp: respond_def issue_simps)
    with g res show ?B3 by (simp add: admin_route_def)
  qed
qed


lemma demo_photo_index: "indexOf demo_photo storage_base = Some 24"
  by (simp add: demo_photo_def storage_base_def PROPERTY_BUCKET_def)

lemma demo_gallery_gate:
  "getUser_fault e = NoFault \<Longrightarrow> adminLookup_fault e = NoFault \<Longrightarrow>
   auth_gate e (demo_request (Some ''Bearer tokA'') i b fs) demo_gallery
     = (Inr demo_admin,
        issue (DbSelect ''admin_users'' ''admin-1'') (issue (AuthGetUser ''tokA'') demo_gallery))"
  using auth_gate_pass [of "demo_request (Some ''Bearer tokA'') i b fs" "''tokA''" e
      demo_gallery demo_admin
      "[(''auth_user_id'', JStr ''admin-1''), (''is_admin'', JBool True)]"]
  by (simp add: bearer_token_def demo_request_def demo_gallery_def demo_world_def
      demo_admin_def get_def)

theorem detach_image_guarded_witness:
  "status (fst (admin_route delete_image demo_env
       (demo_request (Some ''Bearer tokA'') ''1'' [(''url'', JStr ''https://elsewhere/x.png'')] [])
       demo_gallery)) = 400
   \<and> same_store demo_gallery (snd (admin_route delete_image demo_env
       (demo_request (Some ''Bearer tokA'') ''1'' [(''url'', JStr ''https://elsewhere/x.png'')] [])
       demo_gallery))
   \<and> status (fst (admin_route delete_image demo_env_storage_down
       (demo_request (Some ''Bearer tokA'') ''1'' [(''url'', JStr demo_photo)] []) demo_gallery))
     = 500
   \<and> tables (snd (admin_route delete_image demo_env_storage_down
       (demo_request (Some ''Bearer tokA'') ''1'' [(''url'', JStr demo_photo)] []) demo_gallery))
     = tables demo_gallery
   \<and> calls (snd (admin_route delete_image demo_env_storage_down
       (demo_request (Some ''Bearer tokA'') ''1'' [(''url'', JStr demo_photo)] []) demo_gallery))
     = [AuthGetUser ''tokA'', DbSelect ''admin_users'' ''admin-1'', DbSelect ''properties'' ''1'',
        StorageRemove PROPERTY_BUCKET [''properties/1/aaaa.png'']]"
proof -
  let ?other = "demo_request (Some ''Bearer tokA'') ''1''
      [(''url'', JStr ''https://elsewhere/x.png'')] []"
  let ?photo = "demo_request (Some ''Bearer tokA'') ''1'' [(''url'', JStr demo_photo)] []"
  let ?pr = "[(''id'', JStr ''1''), (''name'', JStr ''Villa''),
              (''images'', JArr [JStr demo_photo])]"
  let ?w1 = "issue (DbSelect ''admin_users'' ''admin-1'') (issue (AuthGetUser ''tokA'') demo_gallery)"
  have nf: "getUser_fault demo_env = NoFault" "adminLookup_fault demo_env = NoFault"
    "select_fault demo_env = NoFault"
    "getUser_fault demo_env_storage_down = NoFault"
    "adminLookup_fault demo_env_storage_down = NoFault"
    "select_fault demo_env_storage_down = NoFault"
    "remove_fault demo_env_storage_down \<noteq> NoFault"
    by (simp_all add: demo_env_def demo_env_storage_down_def)
  have row: "tables demo_gallery ''properties'' ''1'' = Some ?pr"
    by (simp add: demo_gallery_def)
  have a1: "tables demo_gallery ''properties'' (param_id ?other) = Some ?pr
      \<and> select_fault demo_env = NoFault
      \<and> \<not> array_includes (array_or_empty (get ?pr ''images'')) (get (body ?other) ''url'')
      \<and> auth_gate demo_env ?other demo_gallery = (Inr demo_admin, ?w1)"
    using row nf demo_gallery_gate [of demo_env]
    by (simp add: demo_request_def get_def array_includes_def demo_photo_def)
  have a3: "tables demo_gallery ''properties'' (param_id ?photo) = Some ?pr
      \<and> select_fault demo_env_storage_down = NoFault
      \<and> get (body ?photo) ''url'' = JStr demo_photo
      \<and> array_includes (array_or_empty (get ?pr ''images'')) (JStr demo_photo)
      \<and> indexOf demo_photo storage_base = Some 24
      \<and> remove_fault demo_env_storage_down \<noteq> NoFault
      \<and> auth_gate demo_env_storage_down ?photo demo_gallery = (Inr demo_admin, ?w1)"
    using row nf demo_gallery_gate [of demo_env_storage_down] demo_photo_index
    by (simp add: demo_request_def get_def array_includes_def)
  have a2: "remove_fault demo_env_storage_down \<noteq> NoFault
      \<and> admin_route delete_image demo_env_storage_down ?photo demo_gallery
        = (fst (admin_route delete_image demo_env_storage_down ?photo demo_gallery),
           snd (admin_route delete_image demo_env_storage_down ?photo demo_gallery))"
    using nf by simp
  have path: "drop (24 + length storage_base) demo_photo = ''properties/1/aaaa.png''"
    by (simp add: demo_photo_def storage_base_def PROPERTY_BUCKET_def)
  have c0: "calls ?w1 = [AuthGetUser ''tokA'', DbSelect ''admin_users'' ''admin-1'']"
    by (simp add: issue_simps demo_gallery_def demo_world_def)
  note r1 = detach_image_guarded [THEN conjunct1, THEN mp, OF a1]
  note r2 = detach_image_guarded [THEN conjunct2, THEN conjunct1, THEN mp, OF a2]
  note r3 = detach_image_guarded [THEN conjunct2, THEN conjunct2, THEN mp, OF a3]
  from r1 r2 r3 show ?thesis
    unfolding path c0 by (simp add: demo_request_def)
qed

section \<open>Attaching images and the round trip\<close>

lemma length_attach_keys [simp]: "length (attach_keys e sub fs n) = length fs"
  by (induction fs arbitrary: n) simp_all

lemma upload_loop_result:
  "upload_loop e sub fs n acc w = (r, w') \<Longrightarrow>
     sessions w' = sessions w \<and> tables w' = tables w \<and> outbox w' = outbox w
     \<and> filter is_update (calls w') = filter is_update (calls w)
     \<and> (case r of
          Inr uploaded \<Rightarrow>
            uploaded = acc @ map (\<lambda>k. JStr (getPublicUrl e PROPERTY_BUCKET k)) (attach_keys e sub fs n)
            \<and> distinct (attach_keys e sub fs n)
            \<and> (\<forall>k \<in> set (attach_keys e sub fs n). objects w PROPERTY_BUCKET k = None)
        | Inl m \<Rightarrow> True)"
proof (induction fs arbitrary: n acc w r w')
  case Nil
  then show ?case by auto
next
  case (Cons f fs)
  obtain x w1 where x: "uploadToBucket e n PROPERTY_BUCKET (file_buffer f) (file_originalname f)
      (file_mimetype f) sub w = (x, w1)"
    by (cases "uploadToBucket e n PROPERTY_BUCKET (file_buffer f) (file_originalname f)
      (file_mimetype f) sub w")
  note ur = uploadToBucket_result [OF x]
  let ?k = "spec_key e n sub (file_originalname f) (file_mimetype f)"
  show ?case
  proof (cases x)
    case (Inl m)
    with Cons.prems x ur show ?thesis by auto
  next
    case (Inr ku)
    with ur have ku: "ku = (?k, getPublicUrl e PROPERTY_BUCKET ?k)"
      and free: "objects w PROPERTY_BUCKET ?k = None"
      and obj: "objects w1 = (objects w)(PROPERTY_BUCKET := (objects w PROPERTY_BUCKET)(?k \<mapsto> file_buffer f))"
      and fr: "sessions w1 = sessions w" "tables w1 = tables w" "outbox w1 = outbox w"
        "filter is_update (calls w1) = filter is_update (calls w)"
      by (auto split: prod.splits)
    from Cons.prems x Inr ku
    have rec: "upload_loop e sub fs (Suc n) (acc @ [JStr (getPublicUrl e PROPERTY_BUCKET ?k)]) w1
        = (r, w')" by simp
    note ih = Cons.IH [OF rec]
    show ?thesis
    proof (cases r)
      case (Inl m)
      with ih fr show ?thesis by simp
    next
      case (Inr uploaded)
      with ih have free1: "\<forall>k \<in> set (attach_keys e sub fs (Suc n)). objects w1 PROPERTY_BUCKET k = None"
        by simp
      with obj have "?k \<notin> set (attach_keys e sub fs (Suc n))"
        and "\<forall>k \<in> set (attach_keys e sub fs (Suc n)). objects w PROPERTY_BUCKET k = None"
        by (auto split: if_splits)
      with ih fr free Inr show ?thesis by simp
    qed
  qed
qed


lemma upload_images_result:
  assumes res: "upload_images e u req w = (r, w')"
  shows "sessions w' = sessions w \<and> outbox w' = outbox w
     \<and> (if status r = 200
         then files req \<noteq> []
            \<and> distinct (attach_keys e (''properties/'' @ param_id req) (files req) 0)
            \<and> (\<exists>pr. tables w ''properties'' (param_id req) = Some pr
                  \<and> tables w' = (tables w)(''properties'' := (tables w ''properties'')
                       (param_id req \<mapsto> attached (attach_urls e (param_id req) (files req)) pr)))
         else tables w' = tables w)"
proof (cases "files req = []")
  case True
  with res show ?thesis by (auto simp: upload_images_def Let_def respond_def)
next
  case False
  obtain x w1 where sel:
    "db_select_single (select_fault e) ''properties'' (param_id req) w = (x, w1)"
    by (cases "db_select_single (select_fault e) ''properties'' (param_id req) w")
  note sr = db_select_single_result [OF sel]
  then have w1: "w1 = issue (DbSelect ''properties'' (param_id req)) w" by simp
  show ?thesis
  proof (cases x)
    case (Err er)
    with res False sel w1 show ?thesis
      by (auto simp: upload_images_def Let_def respond_def issue_simps split: if_splits)
  next
    case (Thrown m)
    with res False sel w1 show ?thesis
      by (auto simp: upload_images_def Let_def respond_def issue_simps)
  next
    case (Data pr)
    with sr have row: "tables w ''properties'' (param_id req) = Some pr" by simp
    note sel' = sel [unfolded Data]
    obtain y w2 where lp: "upload_loop e (''properties/'' @ param_id req) (files req) 0 [] w1
        = (y, w2)"
      by (cases "upload_loop e (''properties/'' @ param_id req) (files req) 0 [] w1")
    note lr = upload_loop_result [OF lp]
    from lr w1 have fr: "sessions w2 = sessions w" "tables w2 = tables w" "outbox w2 = outbox w"
      by (simp_all add: issue_simps)
    show ?thesis
    proof (cases y)
      case (Inl m)
      with res False sel' lp fr show ?thesis
        by (auto simp: upload_images_def Let_def respond_def)
    next
      case (Inr uploaded)
      with lr have up: "uploaded = map JStr (attach_urls e (param_id req) (files req))"
        and dist: "distinct (attach_keys e (''properties/'' @ param_id req) (files req) 0)"
        by (simp_all add: attach_urls_def)
      obtain z w3 where ud: "db_update e ''properties'' (param_id req)
          [(''images'', JArr (array_or_empty (get pr ''images'') @ uploaded))] w2 = (z, w3)"
        by (cases "db_update e ''properties'' (param_id req)
          [(''images'', JArr (array_or_empty (get pr ''images'') @ uploaded))] w2")
      note dr = db_update_result [OF ud]
      from res False sel' lp Inr ud
      have rw: "(case z of
            Err updErr \<Rightarrow>
              (respond 500 [(''message'', JStr ''Failed to save image URLs''),
                            (''error'', JStr (message updErr))], w3)
          | Thrown m \<Rightarrow>
              (respond 500 [(''message'', JStr ''Upload failed''), (''error'', JStr m)], w3)
          | Data updated \<Rightarrow>
              (respond 200 [(''message'', JStr ''Uploaded''),
                            (''images'', get updated ''images'')], w3)) = (r, w')"
        by (cases z) (simp_all add: upload_images_def Let_def)
      show ?thesis
      proof (cases z)
        case (Err er)
        with rw dr fr show ?thesis by (auto simp: respond_def)
      next
        case (Thrown m)
        with rw dr fr show ?thesis by (auto simp: respond_def)
      next
        case zd: (Data updated)
        with rw dr fr row up dist False show ?thesis
          by (auto simp: respond_def attached_def)
      qed
    qed
  qed
qed

lemma upload_images_route_cases:
  assumes "upload_images_route e req w = (r, w')" "status r = 200"
  obtains u w1 where "same_store w w1" "upload_images e u req w1 = (r, w')"
    "length (files req) \<le> 10"
proof -
  from assms(1) [unfolded upload_images_route_def] show thesis
  proof (cases rule: admin_route_cases)
    case refused
    with assms(2) show ?thesis by auto
  next
    case (passed u w1)
    show ?thesis
    proof (cases "multer_array 10 (files req)")
      case (Inl a)
      with passed(3) assms(2) show ?thesis
        by (auto simp: multer_array_def split: if_splits)
    next
      case (Inr fs)
      with passed(3) have "upload_images e u req w1 = (r, w')" by simp
      moreover from Inr have "length (files req) \<le> 10"
        by (auto simp: multer_array_def split: if_splits)
      ultimately show ?thesis using passed(2) by (intro that [of w1 u])
    qed
  qed
qed

lemma attached_images [simp]:
  "get (attached urls pr) ''images'' = JArr (array_or_empty (get pr ''images'') @ map JStr urls)"
  by (simp add: attached_def get_def AList.update_conv')

lemma attached_frame: "k \<noteq> ''images'' \<Longrightarrow> map_of (attached urls pr) k = map_of pr k"
  by (simp add: attached_def AList.update_conv')

lemma distinct_attach_urls:
  "distinct (attach_keys e (''properties/'' @ i) fs 0) \<Longrightarrow> distinct (attach_urls e i fs)"
  by (simp add: attach_urls_def distinct_map getPublicUrl_def inj_on_def)

lemma attach_appends:
  assumes row: "tables w ''properties'' (param_id req) = Some pr"
    and res: "upload_images_route e req w = (r, w')" and st: "status r = 200"
  shows "1 \<le> length (files req) \<and> length (files req) \<le> 10
      \<and> length (attach_urls e (param_id req) (files req)) = length (files req)
      \<and> distinct (attach_urls e (param_id req) (files req))
      \<and> (\<exists>row'. tables w' = (tables w)(''properties'' :=
                    (tables w ''properties'')(param_id req \<mapsto> row'))
            \<and> get row' ''images''
              = JArr (array_or_empty (get pr ''images'')
                      @ map JStr (attach_urls e (param_id req) (files req)))
            \<and> (\<forall>k. k \<noteq> ''images'' \<longrightarrow> map_of row' k = map_of pr k))"
proof -
  from res st obtain u w1 where fr: "same_store w w1"
    and h: "upload_images e u req w1 = (r, w')" and n: "length (files req) \<le> 10"
    by (rule upload_images_route_cases)
  from fr have t: "tables w1 = tables w" by (simp add: same_store_def)
  from upload_images_result [OF h] st t row
  have ne: "files req \<noteq> []"
    and d: "distinct (attach_keys e (''properties/'' @ param_id req) (files req) 0)"
    and tw: "tables w' = (tables w)(''properties'' := (tables w ''properties'')
        (param_id req \<mapsto> attached (attach_urls e (param_id req) (files req)) pr))"
    by auto
  from ne have "1 \<le> length (files req)" by (cases "files req") simp_all
  with n tw distinct_attach_urls [OF d] show ?thesis
    by (auto simp: attach_urls_def attached_frame
        intro!: exI [of _ "attached (attach_urls e (param_id req) (files req)) pr"])
qed

lemma filter_out_one:
  "distinct urls \<Longrightarrow> s \<in> set urls \<Longrightarrow>
     length (filter (\<lambda>u. \<not> strict_eq u (JStr s)) (map JStr urls)) = length urls - 1"
proof (induction urls)
  case Nil
  then show ?case by simp
next
  case (Cons a urls)
  show ?case
  proof (cases "a = s")
    case True
    with Cons.prems have "s \<notin> set urls" by simp
    then have "filter (\<lambda>u. \<not> strict_eq u (JStr s)) (map JStr urls) = map JStr urls"
      by (induction urls) auto
    with True show ?thesis by simp
  next
    case False
    with Cons have "length (filter (\<lambda>u. \<not> strict_eq u (JStr s)) (map JStr urls))
        = length urls - 1" and "s \<in> set urls" by simp_all
    with False show ?thesis by (cases urls) auto
  qed
qed

lemma detached_images [simp]:
  "get (detached url pr) ''images''
     = JArr (filter (\<lambda>u. \<not> strict_eq u url) (array_or_empty (get pr ''images'')))"
  by (simp add: detached_def get_def AList.update_conv')

lemma round_trip:
  assumes c: "admin_route create_property e1 req1 w0 = (r1, w1)" "status r1 = 201"
    and a: "upload_images_route e2 req2 w1 = (r2, w2)" "status r2 = 200"
      "param_id req2 = new_id e1" "length (files req2) = 2"
    and d: "admin_route delete_image e3 req3 w2 = (r3, w3)" "status r3 = 200"
      "param_id req3 = new_id e1"
      "get (body req3) ''url'' \<in> JStr ` set (attach_urls e2 (new_id e1) (files req2))"
  shows "(\<exists>row. tables w1 ''properties'' (new_id e1) = Some row
            \<and> array_or_empty (get row ''images'') = [])
     \<and> (\<exists>row xs. tables w2 ''properties'' (new_id e1) = Some row
            \<and> get row ''images'' = JArr xs \<and> length xs = 2)
     \<and> (\<exists>row xs. tables w3 ''properties'' (new_id e1) = Some row
            \<and> get row ''images'' = JArr xs \<and> length xs = 1)"
proof -
  from c(1) obtain u wa where "create_property e1 u req1 wa = (r1, w1)"
    using c(2) by (cases rule: admin_route_cases) auto
  from create_property_result [OF this] c(2) obtain row1 where
    row1: "tables w1 ''properties'' (new_id e1) = Some row1" "map_of row1 ''images'' = None"
    by (auto simp: payload_no_images)
  then have e1: "array_or_empty (get row1 ''images'') = []" by (simp add: get_def)
  let ?urls = "attach_urls e2 (new_id e1) (files req2)"
  from attach_appends [OF row1(1) [folded a(3)] a(1,2)] a(3,4) e1 obtain row2 where
    row2: "tables w2 ''properties'' (new_id e1) = Some row2"
      "get row2 ''images'' = JArr (map JStr ?urls)"
    and len: "length ?urls = 2" and dist: "distinct ?urls"
    by auto
  from d(1) obtain v wb where fr: "same_store w2 wb"
    and h: "delete_image e3 v req3 wb = (r3, w3)"
    using d(2) by (cases rule: admin_route_cases) auto
  from fr row2 have rowb: "tables wb ''properties'' (param_id req3) = Some row2"
    by (simp add: same_store_def d(3))
  from delete_image_result [OF h] d(2) rowb obtain s where
    s: "get (body req3) ''url'' = JStr s"
    and t3: "tables w3 = (tables wb)(''properties'' :=
        (tables wb ''properties'')(param_id req3 \<mapsto> detached (JStr s) row2))"
    by auto
  from s d(4) have "s \<in> set ?urls" by auto
  from filter_out_one [OF dist this] len row2(2)
  have "length (filter (\<lambda>u. \<not> strict_eq u (JStr s)) (array_or_empty (get row2 ''images''))) = 1"
    by simp
  with t3 d(3) have "\<exists>row xs. tables w3 ''properties'' (new_id e1) = Some row
            \<and> get row ''images'' = JArr xs \<and> length xs = 1"
    by simp
  with row1 e1 row2 len show ?thesis by auto
qed

text \<open>
  C5. Every attach request answered 200 for an existing property carried between 1 and
  10 files, and leaves the row with its images replaced by the previous sequence (empty
  when the row had none) followed by the public URLs of the uploaded files, one per file,
  in file order and pairwise distinct; the other columns keep their values. Round trip:
  when a create request is answered 201, an attach request with two files for the new
  property is answered 200, and a detach request for one of the two resulting URLs is
  answered 200, the property has no images after the first, two after the second and one
  after the third.
\<close>

theorem attach_appends_round_trip:
  "(tables w ''properties'' (param_id req) = Some pr
    \<and> upload_images_route e req w = (r, w') \<and> status r = 200
    \<longrightarrow> 1 \<le> length (files req) \<and> length (files req) \<le> 10
      \<and> length (attach_urls e (param_id req) (files req)) = length (files req)
      \<and> distinct (attach_urls e (param_id req) (files req))
      \<and> (\<exists>row'. tables w' = (tables w)(''properties'' :=
                    (tables w ''properties'')(param_id req \<mapsto> row'))
            \<and> get row' ''images''
              = JArr (array_or_empty (get pr ''images'')
                      @ map JStr (attach_urls e (param_id req) (files req)))
            \<and> (\<forall>k. k \<noteq> ''images'' \<longrightarrow> map_of row' k = map_of pr k)))
   \<and> (admin_route create_property e1 req1 w0 = (r1, w1) \<and> status r1 = 201
      \<and> upload_images_route e2 req2 w1 = (r2, w2) \<and> status r2 = 200
      \<and> param_id req2 = new_id e1 \<and> length (files req2) = 2
      \<and> admin_route delete_image e3 req3 w2 = (r3, w3) \<and> status r3 = 200
      \<and> param_id req3 = new_id e1
      \<and> get (body req3) ''url'' \<in> JStr ` set (attach_urls e2 (new_id e1) (files req2))
    \<longrightarrow> (\<exists>row. tables w1 ''properties'' (new_id e1) = Some row
            \<and> array_or_empty (get row ''images'') = [])
      \<and> (\<exists>row xs. tables w2 ''properties'' (new_id e1) = Some row
            \<and> get row ''images'' = JArr xs \<and> length xs = 2)
      \<and> (\<exists>row xs. tables w3 ''properties'' (new_id e1) = Some row
            \<and> get row ''images'' = JArr xs \<and> length xs = 1))"
  (is "(?A \<longrightarrow> ?B) \<and> (?C \<longrightarrow> ?D)")
proof (rule conjI)
  show "?A \<longrightarrow> ?B"
  proof
    assume ?A
    then show ?B using attach_appends [of w req pr e r w'] by blast
  qed
  show "?C \<longrightarrow> ?D"
  proof
    assume ?C
    then show ?D using round_trip [of e1 req1 w0 r1 w1 e2 req2 r2 w2 e3 req3 r3 w3] by blast
  qed
qed


lemma demo_attach_urls: "attach_urls demo_env ''2'' demo_files = [demo_url_1, demo_url_2]"
  by (simp add: attach_urls_def demo_files_def demo_url_1_def demo_url_2_def getPublicUrl_def
      spec_key_def spec_extension_def mime_derived_def name_extension_def demo_env_def
      PROPERTY_BUCKET_def)

lemma demo_created_eval:
  "status (fst (admin_route create_property demo_env
      (demo_request (Some ''Bearer tokA'') [] ((''images'', JArr []) # demo_listing) [])
      demo_world)) = 201"
  "sessions demo_created = sessions demo_world"
  "tables demo_created ''admin_users'' = tables demo_world ''admin_users''"
  "objects demo_created = (\<lambda>b. Map.empty)"
  "\<exists>row. tables demo_created ''properties'' ''2'' = Some row \<and> map_of row ''images'' = None"
  unfolding demo_created_def admin_route_def demo_gate_admin
  by (simp_all add: create_property_def db_insert_def Let_def get_def demo_request_def
      demo_listing_def demo_env_def demo_world_def issue_simps demo_admin_def serialise_def)


lemma demo_attached_status:
  "status (fst (upload_images_route demo_env
      (demo_request (Some ''Bearer tokA'') ''2'' [] demo_files) demo_created)) = 200"
proof -
  obtain row1 where row1: "tables demo_created ''properties'' ''2'' = Some row1"
    using demo_created_eval(5) by blast
  have g: "auth_gate demo_env (demo_request (Some ''Bearer tokA'') ''2'' [] demo_files)
      demo_created
     = (Inr demo_admin, issue (DbSelect ''admin_users'' ''admin-1'')
          (issue (AuthGetUser ''tokA'') demo_created))"
    using auth_gate_pass [of "demo_request (Some ''Bearer tokA'') ''2'' [] demo_files" "''tokA''"
        demo_env demo_created demo_admin
        "[(''auth_user_id'', JStr ''admin-1''), (''is_admin'', JBool True)]"]
    by (simp add: bearer_token_def demo_request_def demo_created_eval demo_world_def
        demo_admin_def demo_env_def get_def)
  show ?thesis
    unfolding upload_images_route_def admin_route_def g
    by (simp add: multer_array_def demo_files_def upload_images_def db_select_single_def
        Let_def issue_simps row1 demo_request_def uploadToBucket_def storage_upload_def
        file_ext_def filter_join_def demo_env_def db_update_def respond_def
        demo_created_eval(4) PROPERTY_BUCKET_def getPublicUrl_def)
qed


lemma upload_images_route_frame:
  assumes "upload_images_route e req w = (r, w')"
  shows "sessions w' = sessions w \<and> outbox w' = outbox w"
  using assms [unfolded upload_images_route_def]
proof (cases rule: admin_route_cases)
  case refused
  then show ?thesis by (simp add: same_store_def)
next
  case (passed u w1)
  show ?thesis
  proof (cases "multer_array 10 (files req)")
    case (Inl a)
    with passed show ?thesis by (simp add: same_store_def)
  next
    case (Inr fs)
    with passed(3) have "upload_images e u req w1 = (r, w')" by simp
    from upload_images_result [OF this] passed(2) show ?thesis by (simp add: same_store_def)
  qed
qed

theorem attach_appends_round_trip_witness:
  "(\<exists>row. tables demo_attached ''properties'' ''2'' = Some row
       \<and> get row ''images'' = JArr [JStr demo_url_1, JStr demo_url_2])
   \<and> (\<exists>row xs. tables demo_detached ''properties'' ''2'' = Some row
       \<and> get row ''images'' = JArr xs \<and> length xs = 1)"
proof -
  let ?reqC = "demo_request (Some ''Bearer tokA'') [] ((''images'', JArr []) # demo_listing) []"
  let ?reqA = "demo_request (Some ''Bearer tokA'') ''2'' [] demo_files"
  let ?reqD = "demo_request (Some ''Bearer tokA'') ''2'' [(''url'', JStr demo_url_1)] []"
  obtain row1 where row1: "tables demo_created ''properties'' ''2'' = Some row1"
    and noimg: "map_of row1 ''images'' = None"
    using demo_created_eval(5) by blast
  have resA: "upload_images_route demo_env ?reqA demo_created
      = (fst (upload_images_route demo_env ?reqA demo_created), demo_attached)"
    by (simp add: demo_attached_def)
  have a: "tables demo_created ''properties'' (param_id ?reqA) = Some row1
      \<and> upload_images_route demo_env ?reqA demo_created
        = (fst (upload_images_route demo_env ?reqA demo_created), demo_attached)
      \<and> status (fst (upload_images_route demo_env ?reqA demo_created)) = 200"
    using row1 resA demo_attached_status by (simp add: demo_request_def)
  from attach_appends_round_trip [THEN conjunct1, THEN mp, OF a] noimg obtain row2 where
    t2: "tables demo_attached = (tables demo_created)(''properties'' :=
          (tables demo_created ''properties'')(''2'' \<mapsto> row2))"
    and i2: "get row2 ''images'' = JArr [JStr demo_url_1, JStr demo_url_2]"
    by (auto simp: demo_request_def demo_attach_urls get_def)
  from upload_images_route_frame [OF resA]
  have s2: "sessions demo_attached = sessions demo_world"
    by (simp add: demo_created_eval)
  have g: "auth_gate demo_env ?reqD demo_attached
     = (Inr demo_admin, issue (DbSelect ''admin_users'' ''admin-1'')
          (issue (AuthGetUser ''tokA'') demo_attached))"
    using auth_gate_pass [of ?reqD "''tokA''" demo_env demo_attached demo_admin
        "[(''auth_user_id'', JStr ''admin-1''), (''is_admin'', JBool True)]"]
    by (simp add: bearer_token_def demo_request_def s2 t2 demo_created_eval demo_world_def
        demo_admin_def demo_env_def get_def)
  have u: "get (body ?reqD) ''url'' = JStr demo_url_1" "param_id ?reqD = ''2''"
    by (simp_all add: get_def demo_request_def)
  have "status (fst (delete_image demo_env demo_admin req
      (issue (DbSelect ''admin_users'' ''admin-1'') (issue (AuthGetUser ''tokA'') demo_attached))))
      = 200"
    if "get (body req) ''url'' = JStr demo_url_1" "param_id req = ''2''" for req
    using that
    by (simp add: delete_image_def db_select_single_def Let_def issue_simps t2 i2
        array_includes_def demo_url_1_def demo_url_2_def
        PROPERTY_BUCKET_def storage_remove_def db_update_def demo_env_def respond_def)
  from this [OF u]
  have stD: "status (fst (admin_route delete_image demo_env ?reqD demo_attached)) = 200"
    unfolding admin_route_def g by simp
  have c: "admin_route create_property demo_env ?reqC demo_world
        = (fst (admin_route create_property demo_env ?reqC demo_world), demo_created)
      \<and> status (fst (admin_route create_property demo_env ?reqC demo_world)) = 201
      \<and> upload_images_route demo_env ?reqA demo_created
        = (fst (upload_images_route demo_env ?reqA demo_created), demo_attached)
      \<and> status (fst (upload_images_route demo_env ?reqA demo_created)) = 200
      \<and> param_id ?reqA = new_id demo_env \<and> length (files ?reqA) = 2
      \<and> admin_route delete_image demo_env ?reqD demo_attached
        = (fst (admin_route delete_image demo_env ?reqD demo_attached), demo_detached)
      \<and> status (fst (admin_route delete_image demo_env ?reqD demo_attached)) = 200
      \<and> param_id ?reqD = new_id demo_env
      \<and> get (body ?reqD) ''url''
          \<in> JStr ` set (attach_urls demo_env (new_id demo_env) (files ?reqA))"
    using demo_created_eval(1) demo_attached_status stD demo_attach_urls
    by (simp add: demo_created_def demo_attached_def demo_detached_def)
      (simp add: demo_request_def demo_env_def demo_files_def get_def)
  from attach_appends_round_trip [THEN conjunct2, THEN mp, OF c]
  have "\<exists>row xs. tables demo_detached ''properties'' ''2'' = Some row
       \<and> get row ''images'' = JArr xs \<and> length xs = 1"
    by (simp add: demo_env_def)
  with t2 i2 show ?thesis by simp
qed

section \<open>Creating a review\<close>






end
